theory Spec2Isabelle
  imports Complex_Main
begin

section \<open>Data model (types.ts)\<close>

text \<open>
  The game's \<open>number\<close> values are modelled as exact reals; the value \<open>Infinity\<close>, which the
  raycast uses as its initial hit distance, is the extra constructor of \<open>jsnum\<close>.
  Field names that clash with HOL constants or keywords carry a prefix
  (\<open>id\<close> is \<open>cycle_id\<close>, \<open>start\<close>/\<open>end\<close> are \<open>seg_start\<close>/\<open>seg_end\<close>,
  \<open>x\<close>/\<open>z\<close> are \<open>px\<close>/\<open>pz\<close>).
\<close>

datatype GridDirection = north | east | south | west

datatype GamePhase = menu | countdown | playing | paused | gameOver

datatype CameraMode = firstPerson | thirdPerson | topDown

record GridPosition =
  px :: real
  pz :: real

record TrailSegment =
  seg_start :: GridPosition
  seg_end :: GridPosition
  seg_direction :: GridDirection

record CycleState =
  cycle_id :: string
  gridPosition :: GridPosition
  direction :: GridDirection
  angle :: real
  targetAngle :: real
  isTurning :: bool
  color :: nat
  isAlive :: bool
  trail :: "TrailSegment list"
  isPlayer :: bool
  speed :: real
  trailActive :: bool
  isJumping :: bool
  jumpStartTime :: real
  lastJumpTime :: real

datatype HitType = Wall | Trail | Cycle


datatype jsnum = Fin real | PosInf

section \<open>Constants (constants.ts)\<close>

definition ARENA_SIZE :: real where
  "ARENA_SIZE = 128"

definition ARENA_HALF :: real where
  "ARENA_HALF = ARENA_SIZE / 2"

definition BASE_SPEED :: real where
  "BASE_SPEED = 12"

definition TRAIL_WIDTH :: real where
  "TRAIL_WIDTH = 0.15"

fun DIRECTION_VECTORS :: "GridDirection \<Rightarrow> GridPosition" where
  "DIRECTION_VECTORS north = \<lparr>px = 0, pz = -1\<rparr>"
| "DIRECTION_VECTORS south = \<lparr>px = 0, pz = 1\<rparr>"
| "DIRECTION_VECTORS east = \<lparr>px = 1, pz = 0\<rparr>"
| "DIRECTION_VECTORS west = \<lparr>px = -1, pz = 0\<rparr>"

fun TURN_LEFT :: "GridDirection \<Rightarrow> GridDirection" where
  "TURN_LEFT north = west"
| "TURN_LEFT west = south"
| "TURN_LEFT south = east"
| "TURN_LEFT east = north"

fun TURN_RIGHT :: "GridDirection \<Rightarrow> GridDirection" where
  "TURN_RIGHT north = east"
| "TURN_RIGHT east = south"
| "TURN_RIGHT south = west"
| "TURN_RIGHT west = north"

fun DIRECTION_TO_ANGLE :: "GridDirection \<Rightarrow> real" where
  "DIRECTION_TO_ANGLE north = 0"
| "DIRECTION_TO_ANGLE east = pi / 2"
| "DIRECTION_TO_ANGLE south = pi"
| "DIRECTION_TO_ANGLE west = - pi / 2"

section \<open>Grid system (GridSystem.ts)\<close>

definition moveForward :: "GridPosition \<Rightarrow> GridDirection \<Rightarrow> real \<Rightarrow> GridPosition" where
  "moveForward position dir amount =
     (let vector = DIRECTION_VECTORS dir
      in \<lparr>px = px position + px vector * amount,
          pz = pz position + pz vector * amount\<rparr>)"

definition moveForwardAngle :: "GridPosition \<Rightarrow> real \<Rightarrow> real \<Rightarrow> GridPosition" where
  "moveForwardAngle position ang amount =
     \<lparr>px = px position + sin ang * amount,
      pz = pz position - cos ang * amount\<rparr>"

definition distance :: "GridPosition \<Rightarrow> GridPosition \<Rightarrow> real" where
  "distance a b =
     (let dx = px b - px a; dz = pz b - pz a
      in sqrt (dx * dx + dz * dz))"

definition calculateMovement :: "real \<Rightarrow> real \<Rightarrow> real" where
  "calculateMovement deltaTime speedMultiplier =
     BASE_SPEED * speedMultiplier * (deltaTime / 1000)"

section \<open>Collision system (CollisionSystem.ts)\<close>

definition CYCLE_RADIUS :: real where
  "CYCLE_RADIUS = 0.4"

definition checkWallCollision :: "GridPosition \<Rightarrow> bool" where
  "checkWallCollision position =
     (let margin = CYCLE_RADIUS; limit = ARENA_HALF - margin
      in px position < - limit \<or> px position > limit \<or>
         pz position < - limit \<or> pz position > limit)"

definition pointIntersectsSegment :: "GridPosition \<Rightarrow> TrailSegment \<Rightarrow> bool" where
  "pointIntersectsSegment point segment =
     (let start = seg_start segment; endp = seg_end segment;
          halfWidth = TRAIL_WIDTH / 2 + CYCLE_RADIUS;
          minX = min (px start) (px endp) - halfWidth;
          maxX = max (px start) (px endp) + halfWidth;
          minZ = min (pz start) (pz endp) - halfWidth;
          maxZ = max (pz start) (pz endp) + halfWidth
      in px point \<ge> minX \<and> px point \<le> maxX \<and> pz point \<ge> minZ \<and> pz point \<le> maxZ)"



definition checkCycleCollision :: "GridPosition \<Rightarrow> GridPosition \<Rightarrow> bool" where
  "checkCycleCollision a b =
     (let dx = px a - px b; dz = pz a - pz b;
          distanceSquared = dx * dx + dz * dz;
          minDistance = CYCLE_RADIUS * 2
      in distanceSquared < minDistance * minDistance)"




subsection \<open>Raycast\<close>

record RaycastResult =
  ray_distance :: real
  ray_type :: "HitType option"

text \<open>\<open>d < minHitDistance\<close> and \<open>Math.min(minHitDistance, v)\<close> where the left side may be \<open>Infinity\<close>.\<close>

fun lessInf :: "real \<Rightarrow> jsnum \<Rightarrow> bool" where
  "lessInf d (Fin m) = (d < m)"
| "lessInf d PosInf = True"

fun minInf :: "jsnum \<Rightarrow> real \<Rightarrow> real" where
  "minInf (Fin m) v = min m v"
| "minInf PosInf v = v"

definition raycastWall :: "GridPosition \<Rightarrow> GridPosition \<Rightarrow> jsnum" where
  "raycastWall position dvec =
     (let margin = CYCLE_RADIUS;
          minDist = PosInf;
          minDist =
            (if px dvec > 0
               then Fin (minInf minDist ((ARENA_HALF - margin - px position) / px dvec))
             else if px dvec < 0
               then Fin (minInf minDist ((- ARENA_HALF + margin - px position) / px dvec))
             else minDist);
          minDist =
            (if pz dvec > 0
               then Fin (minInf minDist ((ARENA_HALF - margin - pz position) / pz dvec))
             else if pz dvec < 0
               then Fin (minInf minDist ((- ARENA_HALF + margin - pz position) / pz dvec))
             else minDist)
      in minDist)"

text \<open>
  The segments of one cycle that the raycast tests:
  \<open>cycle.id === selfId ? cycle.trail.slice(0, Math.max(0, cycle.trail.length - 3)) : cycle.trail\<close>.
\<close>

definition raycastTrail :: "string \<Rightarrow> CycleState \<Rightarrow> TrailSegment list" where
  "raycastTrail selfId c =
     (if cycle_id c = selfId then take (length (trail c) - 3) (trail c) else trail c)"

text \<open>
  The loop state is the pair \<open>(minHitDistance, hitType)\<close>. The innermost loop runs over
  the segments of one trail at the sample distance \<open>d\<close>.
\<close>

fun raycastSegments ::
  "GridPosition \<Rightarrow> real \<Rightarrow> TrailSegment list \<Rightarrow> jsnum \<times> HitType option \<Rightarrow> jsnum \<times> HitType option"
where
  "raycastSegments testPos d [] acc = acc"
| "raycastSegments testPos d (segment # rest) acc =
     raycastSegments testPos d rest
       (if pointIntersectsSegment testPos segment \<and> lessInf d (fst acc)
        then (Fin d, Some Trail) else acc)"

definition raycastCycle ::
  "GridPosition \<Rightarrow> real \<Rightarrow> string \<Rightarrow> CycleState \<Rightarrow> jsnum \<times> HitType option \<Rightarrow> jsnum \<times> HitType option"
where
  "raycastCycle testPos d selfId c acc =
     (if \<not> isAlive c then acc
      else
        let acc1 = raycastSegments testPos d (raycastTrail selfId c) acc
        in if cycle_id c \<noteq> selfId
           then
             (let dx = px testPos - px (gridPosition c);
                  dz = pz testPos - pz (gridPosition c)
              in if dx * dx + dz * dz < CYCLE_RADIUS * CYCLE_RADIUS * 4 \<and> lessInf d (fst acc1)
                 then (Fin d, Some Cycle) else acc1)
           else acc1)"

fun raycastCycles ::
  "GridPosition \<Rightarrow> real \<Rightarrow> string \<Rightarrow> CycleState list \<Rightarrow> jsnum \<times> HitType option \<Rightarrow> jsnum \<times> HitType option"
where
  "raycastCycles testPos d selfId [] acc = acc"
| "raycastCycles testPos d selfId (c # rest) acc =
     raycastCycles testPos d selfId rest (raycastCycle testPos d selfId c acc)"

definition rayStep :: real where
  "rayStep = 0.5"

text \<open>
  \<open>for (let d = step; d <= maxDistance && d < minHitDistance; d += step)\<close>: the loop ends
  because \<open>maxDistance - d\<close> shrinks by \<open>step\<close> on every round.
\<close>

function raycastLoop ::
  "GridPosition \<Rightarrow> GridPosition \<Rightarrow> real \<Rightarrow> CycleState list \<Rightarrow> string \<Rightarrow> real \<Rightarrow>
   jsnum \<times> HitType option \<Rightarrow> jsnum \<times> HitType option"
where
  "raycastLoop position dvec maxDistance allCycles selfId d acc =
     (if d \<le> maxDistance \<and> lessInf d (fst acc)
      then
        let testPos = \<lparr>px = px position + px dvec * d, pz = pz position + pz dvec * d\<rparr>
        in raycastLoop position dvec maxDistance allCycles selfId (d + rayStep)
             (raycastCycles testPos d selfId allCycles acc)
      else acc)"
  by pat_completeness auto
termination
proof (relation "measure (\<lambda>(position, dvec, maxDistance, allCycles, selfId, d, acc).
                   nat (\<lceil>(maxDistance - d) * 2\<rceil> + 1))", goal_cases)
  case 1
  show ?case by simp
next
  case (2 position dvec maxDistance allCycles selfId d acc testPos)
  then have le: "d \<le> maxDistance" by simp
  have "\<lceil>(maxDistance - (d + rayStep)) * 2\<rceil> = \<lceil>(maxDistance - d) * 2\<rceil> - 1"
  proof -
    have "(maxDistance - (d + rayStep)) * 2 = (maxDistance - d) * 2 - 1"
      unfolding rayStep_def by (simp add: algebra_simps)
    then show ?thesis by (simp only: ceiling_diff_one)
  qed
  moreover have "0 \<le> \<lceil>(maxDistance - d) * 2\<rceil>"
    using le by simp
  ultimately show ?case by simp
qed

declare raycastLoop.simps [simp del]

definition raycast ::
  "GridPosition \<Rightarrow> GridPosition \<Rightarrow> real \<Rightarrow> CycleState list \<Rightarrow> string \<Rightarrow> RaycastResult"
where
  "raycast position dvec maxDistance allCycles selfId =
     (let wallDist = raycastWall position dvec;
          start = (case wallDist of Fin w \<Rightarrow> (Fin w, Some Wall) | PosInf \<Rightarrow> (PosInf, None));
          final = raycastLoop position dvec maxDistance allCycles selfId rayStep start
      in \<lparr>ray_distance = minInf (fst final) maxDistance, ray_type = snd final\<rparr>)"

section \<open>Decision policy (AIController.ts)\<close>

datatype Turn = turn_left | turn_right | turn_none

record AIDecision =
  turn :: Turn
  urgency :: real
  jump :: bool

record DirectionScore =
  score_direction :: GridDirection
  score_turn :: Turn
  forwardDistance :: real
  escapePaths :: nat
  selfTrailDanger :: real
  totalScore :: real

record AIConfig =
  lookAheadDistance :: real
  minTurnDistance :: real
  randomFactor :: real
  decisionInterval :: real

definition AI_CONFIG :: AIConfig where
  "AI_CONFIG = \<lparr>lookAheadDistance = 25, minTurnDistance = 4, randomFactor = 0.15,
                 decisionInterval = 60\<rparr>"

text \<open>
  What a call reads from outside the program: \<open>performance.now()\<close> and the values the
  calls of \<open>Math.random()\<close> return (one field per call site).
\<close>

record Env =
  perfNow :: real
  randomJump :: real
  randomTurn :: real
  randomStrategic :: real

text \<open>\<open>for (const dir of allDirs)\<close> with the counter \<open>openPaths\<close>.\<close>

fun countOpenPaths ::
  "GridPosition \<Rightarrow> CycleState list \<Rightarrow> string \<Rightarrow> GridDirection list \<Rightarrow> nat \<Rightarrow> nat"
where
  "countOpenPaths futurePos allCycles selfId [] openPaths = openPaths"
| "countOpenPaths futurePos allCycles selfId (dir # rest) openPaths =
     (let checkVector = DIRECTION_VECTORS dir;
          hit = raycast futurePos checkVector 15 allCycles selfId
      in countOpenPaths futurePos allCycles selfId rest
           (if ray_distance hit \<ge> 8 then openPaths + 1 else openPaths))"

definition countEscapePaths :: "CycleState \<Rightarrow> GridDirection \<Rightarrow> CycleState list \<Rightarrow> nat" where
  "countEscapePaths cycle primaryDir allCycles =
     (let vector = DIRECTION_VECTORS primaryDir;
          futurePos = \<lparr>px = px (gridPosition cycle) + px vector * 8,
                       pz = pz (gridPosition cycle) + pz vector * 8\<rparr>;
          allDirs = [north, east, south, west]
      in countOpenPaths futurePos allCycles (cycle_id cycle) allDirs 0)"

definition distanceToSegment :: "GridPosition \<Rightarrow> TrailSegment \<Rightarrow> real" where
  "distanceToSegment point segment =
     (let start = seg_start segment; endp = seg_end segment;
          dx = px endp - px start;
          dz = pz endp - pz start;
          lenSq = dx * dx + dz * dz
      in if lenSq = 0
         then sqrt ((px point - px start)\<^sup>2 + (pz point - pz start)\<^sup>2)
         else
           let t = max 0 (min 1
                     (((px point - px start) * dx + (pz point - pz start) * dz) / lenSq));
               closestX = px start + t * dx;
               closestZ = pz start + t * dz
           in sqrt ((px point - closestX)\<^sup>2 + (pz point - closestZ)\<^sup>2))"

text \<open>The three loops of \<open>evaluateSelfTrailDanger\<close>, each threading \<open>danger\<close>.\<close>

fun dangerSegments :: "GridPosition \<Rightarrow> TrailSegment list \<Rightarrow> real \<Rightarrow> real" where
  "dangerSegments checkPos [] danger = danger"
| "dangerSegments checkPos (segment # rest) danger =
     (let distToSegment = distanceToSegment checkPos segment
      in dangerSegments checkPos rest
           (if distToSegment < 3 then danger - (10 - distToSegment * 2) else danger))"

fun dangerDistances :: "CycleState \<Rightarrow> GridPosition \<Rightarrow> real list \<Rightarrow> real \<Rightarrow> real" where
  "dangerDistances cycle vector [] danger = danger"
| "dangerDistances cycle vector (dst # rest) danger =
     (let checkPos = \<lparr>px = px (gridPosition cycle) + px vector * dst,
                      pz = pz (gridPosition cycle) + pz vector * dst\<rparr>;
          oldTrail = take (length (trail cycle) - 4) (trail cycle)
      in dangerDistances cycle vector rest (dangerSegments checkPos oldTrail danger))"

fun dangerSides :: "CycleState \<Rightarrow> CycleState list \<Rightarrow> GridDirection list \<Rightarrow> real \<Rightarrow> real" where
  "dangerSides cycle allCycles [] danger = danger"
| "dangerSides cycle allCycles (sideDir # rest) danger =
     (let sideVector = DIRECTION_VECTORS sideDir;
          sideHit = raycast (gridPosition cycle) sideVector 10 allCycles (cycle_id cycle)
      in dangerSides cycle allCycles rest
           (if ray_distance sideHit < 5 \<and> ray_type sideHit = Some Trail
            then danger - 5 else danger))"

definition evaluateSelfTrailDanger ::
  "CycleState \<Rightarrow> GridDirection \<Rightarrow> CycleState list \<Rightarrow> real"
where
  "evaluateSelfTrailDanger cycle dir allCycles =
     (if length (trail cycle) < 3 then 0
      else
        let vector = DIRECTION_VECTORS dir;
            danger = 0;
            checkDistances = [5, 10, 15, 20];
            danger = dangerDistances cycle vector checkDistances danger;
            leftDir = TURN_LEFT dir;
            rightDir = TURN_RIGHT dir
        in dangerSides cycle allCycles [leftDir, rightDir] danger)"

text \<open>The body of the \<open>directions.map\<close> callback of \<open>evaluateAllDirections\<close>.\<close>

definition evaluateDirection ::
  "CycleState \<Rightarrow> CycleState list \<Rightarrow> GridDirection \<times> Turn \<Rightarrow> DirectionScore"
where
  "evaluateDirection cycle allCycles dt =
     (let dir = fst dt; trn = snd dt;
          vector = DIRECTION_VECTORS dir;
          forwardHit = raycast (gridPosition cycle) vector (lookAheadDistance AI_CONFIG * 2)
                         allCycles (cycle_id cycle);
          escPaths = countEscapePaths cycle dir allCycles;
          selfDanger = evaluateSelfTrailDanger cycle dir allCycles;
          total = ray_distance forwardHit * 2.0 + real escPaths * 8.0 + selfDanger * 1.0
      in \<lparr>score_direction = dir, score_turn = trn,
          forwardDistance = ray_distance forwardHit,
          escapePaths = escPaths,
          selfTrailDanger = selfDanger,
          totalScore = total\<rparr>)"

definition evaluateAllDirections :: "CycleState \<Rightarrow> CycleState list \<Rightarrow> DirectionScore list" where
  "evaluateAllDirections cycle allCycles =
     (let directions = [(direction cycle, turn_none),
                        (TURN_LEFT (direction cycle), turn_left),
                        (TURN_RIGHT (direction cycle), turn_right)]
      in map (evaluateDirection cycle allCycles) directions)"

definition shouldJump :: "CycleState \<Rightarrow> CycleState list \<Rightarrow> real \<Rightarrow> Env \<Rightarrow> bool" where
  "shouldJump cycle allCycles forwardDist env =
     (if isJumping cycle then False
      else if perfNow env - lastJumpTime cycle < 2000 then False
      else
        let forwardVector = DIRECTION_VECTORS (direction cycle)
        in if forwardDist > 3 \<and> forwardDist < 12 \<and>
              (let hit = raycast (gridPosition cycle) forwardVector 12 allCycles (cycle_id cycle)
               in ray_type hit = Some Trail \<and> ray_distance hit > 3 \<and> ray_distance hit < 10)
           then True
           else if forwardDist < 4 then randomJump env < 0.4
           else False)"

text \<open>
  The controller's only state is the map \<open>lastDecisionTime\<close>. \<open>getDecision\<close> returns the
  decision and the map after the call; \<open>None\<close> stands for the \<open>TypeError\<close> that reading a
  field of \<open>scores.find(...)\<close> would raise if no entry were found. The sort is the stable
  descending sort by \<open>totalScore\<close>.
\<close>

type_synonym AIState = "string \<rightharpoonup> real"

definition noDecision :: AIDecision where
  "noDecision = \<lparr>turn = turn_none, urgency = 0, jump = False\<rparr>"

definition getDecision ::
  "AIState \<Rightarrow> CycleState \<Rightarrow> CycleState list \<Rightarrow> real \<Rightarrow> Env \<Rightarrow> (AIDecision \<times> AIState) option"
where
  "getDecision lastDecisionTime cycle allCycles currentTime env =
     (let lastDecision = (case lastDecisionTime (cycle_id cycle) of None \<Rightarrow> 0 | Some v \<Rightarrow> v)
      in if currentTime - lastDecision < decisionInterval AI_CONFIG
         then Some (\<lparr>turn = turn_none, urgency = 0, jump = False\<rparr>, lastDecisionTime)
         else
           let scores = sort_key (\<lambda>s. - totalScore s) (evaluateAllDirections cycle allCycles)
           in case (scores, find (\<lambda>s. score_turn s = turn_none) scores) of
                (bestOption # _, Some forwardOption) \<Rightarrow>
                  (let doJump = shouldJump cycle allCycles (forwardDistance forwardOption) env;
                       committed = lastDecisionTime(cycle_id cycle \<mapsto> currentTime);
                       scoreDiff = totalScore bestOption - totalScore forwardOption
                   in if forwardDistance forwardOption < minTurnDistance AI_CONFIG
                      then
                        (if doJump \<and> \<not> isJumping cycle
                         then Some (\<lparr>turn = turn_none, urgency = 1, jump = True\<rparr>, committed)
                         else case filter (\<lambda>s. score_turn s \<noteq> turn_none) scores of
                                opt # _ \<Rightarrow>
                                  Some (\<lparr>turn = score_turn opt, urgency = 1, jump = False\<rparr>,
                                        committed)
                              | [] \<Rightarrow>
                                  Some (\<lparr>turn = (if randomTurn env < 0.5 then turn_left
                                                 else turn_right),
                                         urgency = 1, jump = False\<rparr>, committed))
                      else if score_turn bestOption \<noteq> turn_none \<and> scoreDiff > 8
                        then Some (\<lparr>turn = score_turn bestOption, urgency = 0.7, jump = False\<rparr>,
                                   committed)
                      else
                        case (if escapePaths forwardOption < 2 \<and> forwardDistance forwardOption < 20
                              then find (\<lambda>s. score_turn s \<noteq> turn_none \<and>
                                              escapePaths s > escapePaths forwardOption) scores
                              else None) of
                          Some betterOption \<Rightarrow>
                            Some (\<lparr>turn = score_turn betterOption, urgency = 0.6, jump = False\<rparr>,
                                  committed)
                        | None \<Rightarrow>
                            if forwardDistance forwardOption < lookAheadDistance AI_CONFIG * 0.5 \<and>
                               score_turn bestOption \<noteq> turn_none \<and> scoreDiff > 3
                            then Some (\<lparr>turn = score_turn bestOption, urgency = 0.5,
                                        jump = False\<rparr>, committed)
                            else if doJump \<and> \<not> isJumping cycle \<and> randomStrategic env < 0.2
                            then Some (\<lparr>turn = turn_none, urgency = 0.3, jump = True\<rparr>,
                                       committed)
                            else Some (\<lparr>turn = turn_none, urgency = 0, jump = False\<rparr>,
                                       lastDecisionTime))
              | _ \<Rightarrow> None)"

text \<open>\<open>reset()\<close> clears the map.\<close>

definition reset :: "AIState \<Rightarrow> AIState" where
  "reset lastDecisionTime = Map.empty"

section \<open>Simulation state machine (state/GameContext)\<close>

record GameState =
  phase :: GamePhase
  cycles :: "CycleState list"
  cameraMode :: CameraMode
  countdownLeft :: int
  winner :: "string option"
  roundNo :: int
  scores :: "string \<rightharpoonup> int"
  isNPCMode :: bool

datatype TurnDirection = go_left | go_right

datatype GameAction =
    START_GAME
  | PAUSE_GAME
  | RESUME_GAME
  | RESTART_GAME
  | END_GAME "string option"
  | TURN_CYCLE string TurnDirection
  | START_TURN string TurnDirection
  | UPDATE_ANGLE string real
  | END_TURN string
  | MOVE_CYCLE string
  | KILL_CYCLE string
  | ADD_TRAIL_SEGMENT string TrailSegment
  | ACTIVATE_TRAIL string
  | TOGGLE_CAMERA
  | SET_CAMERA CameraMode
  | DECREMENT_COUNTDOWN
  | SET_PHASE GamePhase
  | UPDATE_CYCLE_POSITION string real real
  | START_JUMP string real
  | END_JUMP string
  | TAKE_CONTROL

text \<open>
  What the reducer reads from outside: the four spawns that \<open>generateSpawnPositions()\<close>
  draws at random, and \<open>performance.now()\<close>.
\<close>

record ReducerEnv =
  spawnPositions :: "(GridPosition \<times> GridDirection) list"
  nowTime :: real

text \<open>\<open>normalizeAngle\<close>: two loops, each ending because the angle moves by a full turn.\<close>

function normalizeDown :: "real \<Rightarrow> real" where
  "normalizeDown a = (if a > pi then normalizeDown (a - pi * 2) else a)"
  by pat_completeness auto
termination
proof (relation "measure (\<lambda>a. nat \<lceil>(a - pi) / (pi * 2)\<rceil>)", goal_cases)
  case 1
  show ?case by simp
next
  case (2 a)
  have "(a - pi * 2 - pi) / (pi * 2) = (a - pi) / (pi * 2) - 1"
    by (simp add: field_simps)
  then have eq: "\<lceil>(a - pi * 2 - pi) / (pi * 2)\<rceil> = \<lceil>(a - pi) / (pi * 2)\<rceil> - 1"
    by (simp only: ceiling_diff_one)
  have "0 < (a - pi) / (pi * 2)"
    using 2 by simp
  then have "0 < \<lceil>(a - pi) / (pi * 2)\<rceil>"
    by (simp only: zero_less_ceiling)
  with eq show ?case by simp
qed

function normalizeUp :: "real \<Rightarrow> real" where
  "normalizeUp a = (if a < - pi then normalizeUp (a + pi * 2) else a)"
  by pat_completeness auto
termination
proof (relation "measure (\<lambda>a. nat \<lceil>(- pi - a) / (pi * 2)\<rceil>)", goal_cases)
  case 1
  show ?case by simp
next
  case (2 a)
  have "(- pi - (a + pi * 2)) / (pi * 2) = (- pi - a) / (pi * 2) - 1"
    by (simp add: field_simps)
  then have eq: "\<lceil>(- pi - (a + pi * 2)) / (pi * 2)\<rceil> = \<lceil>(- pi - a) / (pi * 2)\<rceil> - 1"
    by (simp only: ceiling_diff_one)
  have "0 < (- pi - a) / (pi * 2)"
    using 2 by simp
  then have "0 < \<lceil>(- pi - a) / (pi * 2)\<rceil>"
    by (simp only: zero_less_ceiling)
  with eq show ?case by simp
qed

declare normalizeDown.simps [simp del] normalizeUp.simps [simp del]

definition normalizeAngle :: "real \<Rightarrow> real" where
  "normalizeAngle a = normalizeUp (normalizeDown a)"

text \<open>
  \<open>createInitialCycles\<close>: the spawn at index 0 is the player, index \<open>i\<close> is \<open>ai-i\<close>, with
  the colours \<open>player, ai1, ai2, ai3\<close> (\<open>generateSpawnPositions\<close> returns four spawns).
\<close>

definition initialIdentities :: "(string \<times> nat \<times> bool) list" where
  "initialIdentities =
     [(''player'', 16724787, True), (''ai-1'', 65535, False),
      (''ai-2'', 16711935, False), (''ai-3'', 65280, False)]"

definition createInitialCycles :: "(GridPosition \<times> GridDirection) list \<Rightarrow> CycleState list" where
  "createInitialCycles spawns =
     map (\<lambda>(ident, spawn).
            \<lparr>cycle_id = fst ident,
             gridPosition = fst spawn,
             direction = snd spawn,
             angle = DIRECTION_TO_ANGLE (snd spawn),
             targetAngle = -1,
             isTurning = False,
             color = fst (snd ident),
             isAlive = True,
             trail = [],
             isPlayer = snd (snd ident),
             speed = 1.0,
             trailActive = False,
             isJumping = False,
             jumpStartTime = 0,
             lastJumpTime = 0\<rparr>)
         (zip initialIdentities spawns)"

definition createInitialState :: "(GridPosition \<times> GridDirection) list \<Rightarrow> GameState" where
  "createInitialState spawns =
     \<lparr>phase = countdown,
      cycles = createInitialCycles spawns,
      cameraMode = thirdPerson,
      countdownLeft = 3,
      winner = None,
      roundNo = 1,
      scores = [''player'' \<mapsto> 0, ''ai-1'' \<mapsto> 0, ''ai-2'' \<mapsto> 0, ''ai-3'' \<mapsto> 0],
      isNPCMode = True\<rparr>"

text \<open>
  \<open>if (winnerId && newScores[winnerId] !== undefined) newScores[winnerId]++\<close>:
  \<open>null\<close> and the empty string are falsy.
\<close>

definition incrementScore :: "(string \<rightharpoonup> int) \<Rightarrow> string option \<Rightarrow> (string \<rightharpoonup> int)" where
  "incrementScore oldScores winnerId =
     (case winnerId of
        None \<Rightarrow> oldScores
      | Some w \<Rightarrow>
          (if w \<noteq> [] then
             (case oldScores w of
                Some n \<Rightarrow> oldScores(w \<mapsto> n + 1)
              | None \<Rightarrow> oldScores)
           else oldScores))"

fun nextCameraMode :: "CameraMode \<Rightarrow> CameraMode" where
  "nextCameraMode thirdPerson = firstPerson"
| "nextCameraMode firstPerson = topDown"
| "nextCameraMode topDown = thirdPerson"

fun gameReducer :: "GameState \<Rightarrow> GameAction \<Rightarrow> ReducerEnv \<Rightarrow> GameState" where
  "gameReducer state START_GAME env =
     state\<lparr>phase := countdown, countdownLeft := 3,
           cycles := createInitialCycles (spawnPositions env), winner := None\<rparr>"
| "gameReducer state PAUSE_GAME env =
     (if phase state = playing then state\<lparr>phase := paused\<rparr> else state)"
| "gameReducer state RESUME_GAME env =
     (if phase state = paused then state\<lparr>phase := playing\<rparr> else state)"
| "gameReducer state RESTART_GAME env =
     (createInitialState (spawnPositions env))\<lparr>scores := scores state, roundNo := roundNo state\<rparr>"
| "gameReducer state (END_GAME winnerId) env =
     state\<lparr>phase := gameOver, winner := winnerId,
           scores := incrementScore (scores state) winnerId\<rparr>"
| "gameReducer state (TURN_CYCLE cycleId turnDir) env =
     state\<lparr>cycles :=
       map (\<lambda>cycle.
              if cycle_id cycle \<noteq> cycleId \<or> \<not> isAlive cycle then cycle
              else
                let newDirection = (if turnDir = go_left then TURN_LEFT (direction cycle)
                                    else TURN_RIGHT (direction cycle))
                in cycle\<lparr>direction := newDirection,
                         angle := DIRECTION_TO_ANGLE newDirection,
                         trailActive := True\<rparr>)
           (cycles state)\<rparr>"
| "gameReducer state (START_TURN cycleId turnDir) env =
     state\<lparr>cycles :=
       map (\<lambda>cycle.
              if cycle_id cycle \<noteq> cycleId \<or> \<not> isAlive cycle \<or> isTurning cycle then cycle
              else
                let turnAmount = (if turnDir = go_left then - pi / 2 else pi / 2);
                    target = normalizeAngle (angle cycle + turnAmount)
                in cycle\<lparr>isTurning := True, targetAngle := target, trailActive := True\<rparr>)
           (cycles state)\<rparr>"
| "gameReducer state (UPDATE_ANGLE cycleId newAngle) env =
     state\<lparr>cycles :=
       map (\<lambda>cycle. if cycle_id cycle \<noteq> cycleId then cycle else cycle\<lparr>angle := newAngle\<rparr>)
           (cycles state)\<rparr>"
| "gameReducer state (END_TURN cycleId) env =
     state\<lparr>cycles :=
       map (\<lambda>cycle.
              if cycle_id cycle \<noteq> cycleId then cycle
              else
                let newDirection =
                      (if targetAngle cycle = 0 then north
                       else if targetAngle cycle = pi / 2 then east
                       else if targetAngle cycle = pi \<or> targetAngle cycle = - pi then south
                       else west)
                in cycle\<lparr>isTurning := False, targetAngle := -1,
                         angle := (if targetAngle cycle \<noteq> -1 then targetAngle cycle
                                   else angle cycle),
                         direction := newDirection\<rparr>)
           (cycles state)\<rparr>"
| "gameReducer state (ACTIVATE_TRAIL cycleId) env =
     state\<lparr>cycles :=
       map (\<lambda>cycle. if cycle_id cycle \<noteq> cycleId then cycle else cycle\<lparr>trailActive := True\<rparr>)
           (cycles state)\<rparr>"
| "gameReducer state (MOVE_CYCLE cycleId) env =
     state\<lparr>cycles := map (\<lambda>cycle. cycle) (cycles state)\<rparr>"
| "gameReducer state (UPDATE_CYCLE_POSITION cycleId newX newZ) env =
     state\<lparr>cycles :=
       map (\<lambda>cycle. if cycle_id cycle \<noteq> cycleId then cycle
                     else cycle\<lparr>gridPosition := \<lparr>px = newX, pz = newZ\<rparr>\<rparr>)
           (cycles state)\<rparr>"
| "gameReducer state (START_JUMP cycleId time) env =
     state\<lparr>cycles :=
       map (\<lambda>cycle. if cycle_id cycle \<noteq> cycleId \<or> \<not> isAlive cycle then cycle
                     else cycle\<lparr>isJumping := True, jumpStartTime := time\<rparr>)
           (cycles state)\<rparr>"
| "gameReducer state (END_JUMP cycleId) env =
     state\<lparr>cycles :=
       map (\<lambda>cycle. if cycle_id cycle \<noteq> cycleId then cycle
                     else cycle\<lparr>isJumping := False, lastJumpTime := nowTime env\<rparr>)
           (cycles state)\<rparr>"
| "gameReducer state (KILL_CYCLE cycleId) env =
     (let updatedCycles =
            map (\<lambda>cycle. if cycle_id cycle = cycleId then cycle\<lparr>isAlive := False\<rparr> else cycle)
                (cycles state);
          aliveCycles = filter isAlive updatedCycles
      in if length aliveCycles \<le> 1
         then
           let winnerId = (if length aliveCycles = 1 then Some (cycle_id (hd aliveCycles))
                           else None)
           in state\<lparr>cycles := updatedCycles, phase := gameOver, winner := winnerId,
                    scores := incrementScore (scores state) winnerId\<rparr>
         else state\<lparr>cycles := updatedCycles\<rparr>)"
| "gameReducer state (ADD_TRAIL_SEGMENT cycleId segment) env =
     state\<lparr>cycles :=
       map (\<lambda>cycle. if cycle_id cycle \<noteq> cycleId then cycle
                     else cycle\<lparr>trail := trail cycle @ [segment]\<rparr>)
           (cycles state)\<rparr>"
| "gameReducer state TOGGLE_CAMERA env = state\<lparr>cameraMode := nextCameraMode (cameraMode state)\<rparr>"
| "gameReducer state (SET_CAMERA mode) env = state\<lparr>cameraMode := mode\<rparr>"
| "gameReducer state DECREMENT_COUNTDOWN env =
     (let newCountdown = countdownLeft state - 1
      in if newCountdown < 0 then state\<lparr>phase := playing, countdownLeft := 0\<rparr>
         else state\<lparr>countdownLeft := newCountdown\<rparr>)"
| "gameReducer state (SET_PHASE newPhase) env = state\<lparr>phase := newPhase\<rparr>"
| "gameReducer state TAKE_CONTROL env = state\<lparr>isNPCMode := False\<rparr>"

text \<open>Dispatching \<open>GameActions.killCycle(cycleId)\<close>.\<close>

definition killCycle :: "GameState \<Rightarrow> string \<Rightarrow> ReducerEnv \<Rightarrow> GameState" where
  "killCycle state cycleId env = gameReducer state (KILL_CYCLE cycleId) env"

section \<open>Fixtures\<close>

text \<open>The helper \<open>createCycle\<close> of the collision tests: a living cycle heading north.\<close>

definition createCycle :: "string \<Rightarrow> GridPosition \<Rightarrow> TrailSegment list \<Rightarrow> CycleState" where
  "createCycle ident position trl =
     \<lparr>cycle_id = ident, gridPosition = position, direction = north, angle = 0,
      targetAngle = -1, isTurning = False, color = 65535, isAlive = True, trail = trl,
      isPlayer = (ident = ''player''), speed = 1, trailActive = True, isJumping = False,
      jumpStartTime = 0, lastJumpTime = 0\<rparr>"


subsection \<open>States of the running program\<close>

text \<open>
  The agents of a round are the four identities of \<open>createInitialCycles\<close>; \<open>knownAgents\<close>
  says that every cycle is one of them and that each of them has a score entry. A state
  is reachable when the reducer produces it from an initial state.
\<close>

definition agentIds :: "string list" where
  "agentIds = map fst initialIdentities"

definition knownAgents :: "GameState \<Rightarrow> bool" where
  "knownAgents state =
     (list_all (\<lambda>c. cycle_id c \<in> set agentIds) (cycles state) \<and>
      list_all (\<lambda>i. scores state i \<noteq> None) agentIds)"

inductive reachable :: "GameState \<Rightarrow> bool" where
  initial: "reachable (createInitialState spawns)"
| step: "reachable state \<Longrightarrow> reachable (gameReducer state action env)"

text \<open>The default spawns \<open>SPAWN_POSITIONS\<close>, and three states of a round played from them.\<close>

definition SPAWN_POSITIONS :: "(GridPosition \<times> GridDirection) list" where
  "SPAWN_POSITIONS =
     [(\<lparr>px = 0, pz = ARENA_HALF - 10\<rparr>, north),
      (\<lparr>px = 0, pz = - ARENA_HALF + 10\<rparr>, south),
      (\<lparr>px = - ARENA_HALF + 10, pz = 0\<rparr>, east),
      (\<lparr>px = ARENA_HALF - 10, pz = 0\<rparr>, west)]"

definition fixedEnv :: ReducerEnv where
  "fixedEnv = \<lparr>spawnPositions = SPAWN_POSITIONS, nowTime = 0\<rparr>"

definition dispatchAll :: "GameState \<Rightarrow> GameAction list \<Rightarrow> ReducerEnv \<Rightarrow> GameState" where
  "dispatchAll state actions env = foldl (\<lambda>s a. gameReducer s a env) state actions"

definition startedRound :: GameState where
  "startedRound =
     dispatchAll (createInitialState SPAWN_POSITIONS)
       [DECREMENT_COUNTDOWN, DECREMENT_COUNTDOWN, DECREMENT_COUNTDOWN, DECREMENT_COUNTDOWN]
       fixedEnv"

definition twoLeft :: GameState where
  "twoLeft = dispatchAll startedRound [KILL_CYCLE ''ai-2'', KILL_CYCLE ''ai-3''] fixedEnv"

definition oneLeft :: GameState where
  "oneLeft = dispatchAll twoLeft [KILL_CYCLE ''ai-1'', SET_PHASE playing] fixedEnv"

section \<open>Raycast: what lies along a ray\<close>

text \<open>
  The analytic distance to the inset wall in a cardinal direction, in the spec's words:
  the signed gap between the position and the boundary \<open>\<plusminus>(ARENA_HALF - margin)\<close> ahead.
\<close>

definition insetWallDistance :: "GridPosition \<Rightarrow> GridDirection \<Rightarrow> real" where
  "insetWallDistance position dir =
     (case dir of
        north \<Rightarrow> pz position - (- ARENA_HALF + CYCLE_RADIUS)
      | south \<Rightarrow> (ARENA_HALF - CYCLE_RADIUS) - pz position
      | east \<Rightarrow> (ARENA_HALF - CYCLE_RADIUS) - px position
      | west \<Rightarrow> px position - (- ARENA_HALF + CYCLE_RADIUS))"

text \<open>
  The sample point of the raycast at distance \<open>d\<close> (\<open>testPos\<close> in the loop), and whether a
  sample point is blocked: some living cycle has a tested trail segment through it, or is
  another cycle within twice the radius of it.
\<close>

definition samplePoint :: "GridPosition \<Rightarrow> GridPosition \<Rightarrow> real \<Rightarrow> GridPosition" where
  "samplePoint position dvec d =
     \<lparr>px = px position + px dvec * d, pz = pz position + pz dvec * d\<rparr>"

definition blockedAt :: "GridPosition \<Rightarrow> CycleState list \<Rightarrow> string \<Rightarrow> bool" where
  "blockedAt testPos allCycles selfId =
     list_ex (\<lambda>c. isAlive c \<and>
                (list_ex (pointIntersectsSegment testPos) (raycastTrail selfId c) \<or>
                 (cycle_id c \<noteq> selfId \<and> checkCycleCollision testPos (gridPosition c))))
       allCycles"




definition loneCycle :: CycleState where
  "loneCycle = createCycle ''player'' \<lparr>px = 0, pz = 0\<rparr> []"

section \<open>Sequences of decisions\<close>

text \<open>
  \<open>lastOf\<close> is the read \<open>lastDecisionTime.get(id) || 0\<close>. \<open>runDecisions\<close> makes the calls of a
  list one after the other on the controller's map; \<open>nearWall\<close> is a cycle 1.6 units from
  the north wall, \<open>quietEnv\<close> an environment whose random draws never trigger a jump.
\<close>

definition lastOf :: "AIState \<Rightarrow> string \<Rightarrow> real" where
  "lastOf st i = (case st i of None \<Rightarrow> 0 | Some v \<Rightarrow> v)"

record DecisionCall =
  call_cycle :: CycleState
  call_allCycles :: "CycleState list"
  call_time :: real
  call_env :: Env

fun runDecisions :: "AIState \<Rightarrow> DecisionCall list \<Rightarrow> AIState option" where
  "runDecisions st [] = Some st"
| "runDecisions st (call # rest) =
     (case getDecision st (call_cycle call) (call_allCycles call) (call_time call) (call_env call) of
        None \<Rightarrow> None
      | Some r \<Rightarrow> runDecisions (snd r) rest)"

definition nearWall :: CycleState where
  "nearWall = createCycle ''ai-1'' \<lparr>px = 0, pz = -62\<rparr> []"

definition quietEnv :: Env where
  "quietEnv = \<lparr>perfNow = 5000, randomJump = 0.9, randomTurn = 0.9, randomStrategic = 0.9\<rparr>"

text \<open>
  Two cycles of a round in progress: \<open>rider\<close> heads north at the origin after three turns,
  \<open>neighbour\<close> has left a trail segment two units west of it.
\<close>

definition rider :: CycleState where
  "rider = createCycle ''ai-1'' \<lparr>px = 0, pz = 0\<rparr>
     [\<lparr>seg_start = \<lparr>px = 50, pz = 40\<rparr>, seg_end = \<lparr>px = 30, pz = 40\<rparr>, seg_direction = west\<rparr>,
      \<lparr>seg_start = \<lparr>px = 30, pz = 40\<rparr>, seg_end = \<lparr>px = 30, pz = 20\<rparr>, seg_direction = north\<rparr>,
      \<lparr>seg_start = \<lparr>px = 30, pz = 20\<rparr>, seg_end = \<lparr>px = 0, pz = 20\<rparr>, seg_direction = west\<rparr>]"

definition neighbour :: CycleState where
  "neighbour = (createCycle ''ai-2'' \<lparr>px = -10, pz = 5\<rparr>
     [\<lparr>seg_start = \<lparr>px = -2, pz = -5\<rparr>, seg_end = \<lparr>px = -2, pz = 5\<rparr>,
       seg_direction = south\<rparr>])\<lparr>direction := west\<rparr>"

section \<open>Motion: direction vectors and angles agree\<close>

text \<open>
  C10. For every position, cardinal direction and distance, \<open>moveForward\<close> with the
  direction's vector and \<open>moveForwardAngle\<close> with the direction's angle give the same
  position, over exact real arithmetic.
\<close>

theorem moveForward_eq_moveForwardAngle:
  "moveForward p d t = moveForwardAngle p (DIRECTION_TO_ANGLE d) t"
  by (cases d) (simp_all add: moveForward_def moveForwardAngle_def)

section \<open>Collision: walls, agents and dead agents\<close>















lemma checkCycleCollision_squared:
  "checkCycleCollision a b \<longleftrightarrow> (px a - px b)\<^sup>2 + (pz a - pz b)\<^sup>2 < (2 * CYCLE_RADIUS)\<^sup>2"
  by (simp add: checkCycleCollision_def Let_def power2_eq_square)

lemma checkCycleCollision_distance:
  "checkCycleCollision a b \<longleftrightarrow> distance a b < 2 * CYCLE_RADIUS"
proof -
  have sq: "(px b - px a) * (px b - px a) + (pz b - pz a) * (pz b - pz a)
            = (px a - px b)\<^sup>2 + (pz a - pz b)\<^sup>2"
    by (simp add: power2_eq_square algebra_simps)
  have pos: "0 \<le> 2 * CYCLE_RADIUS" by (simp add: CYCLE_RADIUS_def)
  have "distance a b = sqrt ((px a - px b)\<^sup>2 + (pz a - pz b)\<^sup>2)"
    by (simp add: distance_def Let_def sq)
  moreover have "2 * CYCLE_RADIUS = sqrt ((2 * CYCLE_RADIUS)\<^sup>2)"
    using pos by (simp only: real_sqrt_abs abs_of_nonneg)
  ultimately have "distance a b < 2 * CYCLE_RADIUS \<longleftrightarrow>
        sqrt ((px a - px b)\<^sup>2 + (pz a - pz b)\<^sup>2) < sqrt ((2 * CYCLE_RADIUS)\<^sup>2)"
    by simp
  also have "\<dots> \<longleftrightarrow> (px a - px b)\<^sup>2 + (pz a - pz b)\<^sup>2 < (2 * CYCLE_RADIUS)\<^sup>2"
    by (rule real_sqrt_less_iff)
  finally show ?thesis by (simp only: checkCycleCollision_squared)
qed

text \<open>
  C2 (as amended). \<open>checkCycleCollision\<close> is true exactly when the distance between the
  centers is strictly below \<open>2 * CYCLE_RADIUS = 0.8\<close>, that is when the squared distance is
  below \<open>(2 * CYCLE_RADIUS)\<^sup>2\<close>. At distance exactly 0.8 and at distance 1 it is false; for
  identical positions it is true.
\<close>

theorem checkCycleCollision_iff:
  "(checkCycleCollision a b \<longleftrightarrow> distance a b < 2 * CYCLE_RADIUS) \<and>
   (checkCycleCollision a b \<longleftrightarrow> (px a - px b)\<^sup>2 + (pz a - pz b)\<^sup>2 < (2 * CYCLE_RADIUS)\<^sup>2) \<and>
   2 * CYCLE_RADIUS = 0.8 \<and>
   (distance a b = 0.8 \<longrightarrow> \<not> checkCycleCollision a b) \<and>
   (distance a b = 1 \<longrightarrow> \<not> checkCycleCollision a b) \<and>
   checkCycleCollision a a"
proof -
  have r: "2 * CYCLE_RADIUS = 0.8" by (simp add: CYCLE_RADIUS_def)
  have same: "checkCycleCollision a a"
    by (simp add: checkCycleCollision_def CYCLE_RADIUS_def)
  have d8: "distance a b = 0.8 \<longrightarrow> \<not> checkCycleCollision a b"
    by (simp add: checkCycleCollision_distance r)
  have d1: "distance a b = 1 \<longrightarrow> \<not> checkCycleCollision a b"
    by (simp add: checkCycleCollision_distance r)
  from checkCycleCollision_distance [of a b] checkCycleCollision_squared [of a b] r d8 d1 same
  show ?thesis by blast
qed

lemma distance_on_axis: "0 \<le> v \<Longrightarrow> distance \<lparr>px = 0, pz = 0\<rparr> \<lparr>px = v, pz = 0\<rparr> = v"
  by (simp add: distance_def)

text \<open>At distance exactly 0.8 the strict comparison fails, so there is no collision.\<close>

theorem checkCycleCollision_touching_counterexample:
  "distance \<lparr>px = 0, pz = 0\<rparr> \<lparr>px = 0.8, pz = 0\<rparr> = 0.8 \<and>
   \<not> checkCycleCollision \<lparr>px = 0, pz = 0\<rparr> \<lparr>px = 0.8, pz = 0\<rparr>"
  by (simp add: distance_on_axis checkCycleCollision_def CYCLE_RADIUS_def)

theorem checkCycleCollision_iff_witness:
  "(distance \<lparr>px = 0, pz = 0\<rparr> \<lparr>px = 0.8, pz = 0\<rparr> = 0.8 \<and>
    \<not> checkCycleCollision \<lparr>px = 0, pz = 0\<rparr> \<lparr>px = 0.8, pz = 0\<rparr>) \<and>
   (distance \<lparr>px = 0, pz = 0\<rparr> \<lparr>px = 1, pz = 0\<rparr> = 1 \<and>
    \<not> checkCycleCollision \<lparr>px = 0, pz = 0\<rparr> \<lparr>px = 1, pz = 0\<rparr>) \<and>
   (distance \<lparr>px = 0, pz = 0\<rparr> \<lparr>px = 0.5, pz = 0\<rparr> < 0.8 \<and>
    checkCycleCollision \<lparr>px = 0, pz = 0\<rparr> \<lparr>px = 0.5, pz = 0\<rparr>)"
  using checkCycleCollision_iff [of "\<lparr>px = 0, pz = 0\<rparr>" "\<lparr>px = 0.8, pz = 0\<rparr>"]
        checkCycleCollision_iff [of "\<lparr>px = 0, pz = 0\<rparr>" "\<lparr>px = 1, pz = 0\<rparr>"]
        checkCycleCollision_iff [of "\<lparr>px = 0, pz = 0\<rparr>" "\<lparr>px = 0.5, pz = 0\<rparr>"]
  by (simp add: distance_on_axis)

lemma wall_limit: "ARENA_HALF - CYCLE_RADIUS = 63.6"
  by (simp add: ARENA_HALF_def ARENA_SIZE_def CYCLE_RADIUS_def)

lemma checkWallCollision_iff:
  "checkWallCollision p \<longleftrightarrow>
     px p < - (ARENA_HALF - CYCLE_RADIUS) \<or> px p > ARENA_HALF - CYCLE_RADIUS \<or>
     pz p < - (ARENA_HALF - CYCLE_RADIUS) \<or> pz p > ARENA_HALF - CYCLE_RADIUS"
  by (simp only: checkWallCollision_def Let_def)

text \<open>
  C3 (as amended). With \<open>limit = ARENA_HALF - CYCLE_RADIUS = 63.6\<close>: a point with both
  coordinates in the closed interval \<open>[-limit, limit]\<close>, the boundary included, does not
  collide with the wall; a point with a coordinate strictly beyond the boundary does.
  \<open>(63.7, 0)\<close> collides and \<open>(50, 50)\<close> does not.
\<close>

theorem checkWallCollision_bounds:
  "(- (ARENA_HALF - CYCLE_RADIUS) \<le> px p \<and> px p \<le> ARENA_HALF - CYCLE_RADIUS \<and>
    - (ARENA_HALF - CYCLE_RADIUS) \<le> pz p \<and> pz p \<le> ARENA_HALF - CYCLE_RADIUS
      \<longrightarrow> \<not> checkWallCollision p) \<and>
   (px p < - (ARENA_HALF - CYCLE_RADIUS) \<or> px p > ARENA_HALF - CYCLE_RADIUS \<or>
    pz p < - (ARENA_HALF - CYCLE_RADIUS) \<or> pz p > ARENA_HALF - CYCLE_RADIUS
      \<longrightarrow> checkWallCollision p) \<and>
   ARENA_HALF = 64 \<and> CYCLE_RADIUS = 0.4 \<and>
   checkWallCollision \<lparr>px = 63.7, pz = 0\<rparr> \<and>
   \<not> checkWallCollision \<lparr>px = 50, pz = 50\<rparr>"
proof -
  have inside: "- (ARENA_HALF - CYCLE_RADIUS) \<le> px p \<and> px p \<le> ARENA_HALF - CYCLE_RADIUS \<and>
    - (ARENA_HALF - CYCLE_RADIUS) \<le> pz p \<and> pz p \<le> ARENA_HALF - CYCLE_RADIUS
      \<longrightarrow> \<not> checkWallCollision p"
    unfolding checkWallCollision_iff by linarith
  have outside: "px p < - (ARENA_HALF - CYCLE_RADIUS) \<or> px p > ARENA_HALF - CYCLE_RADIUS \<or>
    pz p < - (ARENA_HALF - CYCLE_RADIUS) \<or> pz p > ARENA_HALF - CYCLE_RADIUS
      \<longrightarrow> checkWallCollision p"
    unfolding checkWallCollision_iff by blast
  have half: "ARENA_HALF = 64" by (simp add: ARENA_HALF_def ARENA_SIZE_def)
  have rad: "CYCLE_RADIUS = 0.4" by (simp add: CYCLE_RADIUS_def)
  have ex1: "checkWallCollision \<lparr>px = 63.7, pz = 0\<rparr>"
    by (simp add: checkWallCollision_iff wall_limit)
  have ex2: "\<not> checkWallCollision \<lparr>px = 50, pz = 50\<rparr>"
    by (simp add: checkWallCollision_iff wall_limit)
  from inside outside half rad ex1 ex2 show ?thesis by blast
qed

text \<open>A point exactly on the inset boundary does not collide.\<close>

theorem checkWallCollision_boundary_counterexample:
  "px \<lparr>px = 63.6, pz = 0\<rparr> = ARENA_HALF - CYCLE_RADIUS \<and>
   \<not> checkWallCollision \<lparr>px = 63.6, pz = 0\<rparr>"
  by (simp add: checkWallCollision_iff wall_limit)

theorem checkWallCollision_bounds_witness:
  "(- (ARENA_HALF - CYCLE_RADIUS) \<le> 63.6 \<and> (63.6::real) \<le> ARENA_HALF - CYCLE_RADIUS \<and>
    \<not> checkWallCollision \<lparr>px = 63.6, pz = 63.6\<rparr>) \<and>
   ((63.7::real) > ARENA_HALF - CYCLE_RADIUS \<and> checkWallCollision \<lparr>px = 0, pz = 63.7\<rparr>)"
proof -
  have a: "- (ARENA_HALF - CYCLE_RADIUS) \<le> 63.6 \<and> (63.6::real) \<le> ARENA_HALF - CYCLE_RADIUS"
    by (simp add: wall_limit)
  have b: "(63.7::real) > ARENA_HALF - CYCLE_RADIUS"
    by (simp add: wall_limit)
  have "\<not> checkWallCollision \<lparr>px = 63.6, pz = 63.6\<rparr>"
    using checkWallCollision_bounds [of "\<lparr>px = 63.6, pz = 63.6\<rparr>"] a by simp
  moreover have "checkWallCollision \<lparr>px = 0, pz = 63.7\<rparr>"
    using checkWallCollision_bounds [of "\<lparr>px = 0, pz = 63.7\<rparr>"] b by simp
  ultimately show ?thesis using a b by blast
qed

section \<open>State machine: the end of a round\<close>

lemma agentIds_eq: "agentIds = [''player'', ''ai-1'', ''ai-2'', ''ai-3'']"
  by (simp add: agentIds_def initialIdentities_def)

lemma createInitialCycles_ids:
  "c \<in> set (createInitialCycles spawns) \<Longrightarrow> cycle_id c \<in> set agentIds"
  unfolding createInitialCycles_def agentIds_def
  by (force dest!: set_zip_leftD)

lemma incrementScore_dom: "(\<exists>y. incrementScore m w k = Some y) \<longleftrightarrow> (\<exists>y. m k = Some y)"
  by (auto simp add: incrementScore_def split: option.splits)

lemma knownAgents_initial: "knownAgents (createInitialState spawns)"
  by (auto simp add: knownAgents_def list_all_iff createInitialState_def agentIds_eq
      dest: createInitialCycles_ids [unfolded agentIds_eq])

lemma knownAgents_step:
  assumes "knownAgents state"
  shows "knownAgents (gameReducer state action env)"
proof (cases action)
  case START_GAME
  then show ?thesis using assms
    by (auto simp add: knownAgents_def list_all_iff dest: createInitialCycles_ids)
next
  case RESTART_GAME
  then show ?thesis using assms
    by (auto simp add: knownAgents_def list_all_iff createInitialState_def
        dest: createInitialCycles_ids)
next
  case (END_GAME w)
  then show ?thesis using assms
    by (auto simp add: knownAgents_def list_all_iff incrementScore_dom)
next
  case (KILL_CYCLE cid)
  then show ?thesis using assms
    by (auto simp add: knownAgents_def list_all_iff incrementScore_dom Let_def)
next
  case DECREMENT_COUNTDOWN
  then show ?thesis using assms
    by (auto simp add: knownAgents_def list_all_iff Let_def)
qed (use assms in \<open>auto simp add: knownAgents_def list_all_iff Let_def\<close>)

lemma reachable_knownAgents: "reachable state \<Longrightarrow> knownAgents state"
  by (induction rule: reachable.induct) (simp_all add: knownAgents_initial knownAgents_step)

lemma reachable_dispatchAll:
  "reachable state \<Longrightarrow> reachable (dispatchAll state actions env)"
  unfolding dispatchAll_def
  by (induction actions arbitrary: state) (simp_all add: reachable.step)

lemma agentIds_nonempty: "i \<in> set agentIds \<Longrightarrow> i \<noteq> []"
  by (auto simp add: agentIds_eq)

lemma killed_cycles_ids:
  "c \<in> set (map (\<lambda>cycle. if cycle_id cycle = cid then cycle\<lparr>isAlive := False\<rparr> else cycle) cs)
   \<Longrightarrow> \<exists>c0 \<in> set cs. cycle_id c0 = cycle_id c"
  by (auto split: if_splits)

lemma incrementScore_winner:
  "w \<noteq> [] \<Longrightarrow> m w = Some n \<Longrightarrow>
   incrementScore m (Some w) w = Some (n + 1) \<and>
   (\<forall>k. k \<noteq> w \<longrightarrow> incrementScore m (Some w) k = m k)"
  by (simp add: incrementScore_def)

lemma incrementScore_None: "incrementScore m None = m"
  by (simp add: incrementScore_def)

lemma killCycle_unfold:
  "killCycle state cid env =
     (let updatedCycles =
            map (\<lambda>cycle. if cycle_id cycle = cid then cycle\<lparr>isAlive := False\<rparr> else cycle)
                (cycles state);
          aliveCycles = filter isAlive updatedCycles
      in if length aliveCycles \<le> 1
         then
           state\<lparr>cycles := updatedCycles, phase := gameOver,
                 winner := (if length aliveCycles = 1 then Some (cycle_id (hd aliveCycles))
                            else None),
                 scores := incrementScore (scores state)
                   (if length aliveCycles = 1 then Some (cycle_id (hd aliveCycles)) else None)\<rparr>
         else state\<lparr>cycles := updatedCycles\<rparr>)"
  by (simp add: killCycle_def Let_def)

lemma killCycle_cycles:
  "cycles (killCycle state cid env) =
     map (\<lambda>cycle. if cycle_id cycle = cid then cycle\<lparr>isAlive := False\<rparr> else cycle)
         (cycles state)"
  by (simp add: killCycle_unfold Let_def)

text \<open>
  C4. In a reachable state in phase \<open>playing\<close>, after \<open>killCycle\<close> is dispatched: if exactly
  one agent is alive, the phase is \<open>gameOver\<close>, the winner is that agent and its score has
  grown by exactly 1 (no other score changes); if none is alive, the winner is null and no
  score changes; if two or more are alive, the phase is still \<open>playing\<close>.
\<close>

theorem killCycle_end_of_round:
  assumes reach: "reachable state" and playing: "phase state = playing"
  shows "let after = killCycle state cid env;
             alive = filter isAlive (cycles after)
         in (length alive = 1 \<longrightarrow>
               phase after = gameOver \<and>
               winner after = Some (cycle_id (hd alive)) \<and>
               (\<exists>n. scores state (cycle_id (hd alive)) = Some n \<and>
                    scores after (cycle_id (hd alive)) = Some (n + 1)) \<and>
               (\<forall>k. k \<noteq> cycle_id (hd alive) \<longrightarrow> scores after k = scores state k)) \<and>
            (length alive = 0 \<longrightarrow>
               phase after = gameOver \<and> winner after = None \<and>
               scores after = scores state) \<and>
            (length alive \<ge> 2 \<longrightarrow>
               phase after = playing \<and> winner after = winner state \<and>
               scores after = scores state)"
proof -
  define updated where
    "updated = map (\<lambda>cycle. if cycle_id cycle = cid then cycle\<lparr>isAlive := False\<rparr> else cycle)
                   (cycles state)"
  define alive where "alive = filter isAlive updated"
  have cyc: "cycles (killCycle state cid env) = updated"
    by (simp add: killCycle_cycles updated_def)
  have known: "knownAgents state"
    using reach by (rule reachable_knownAgents)
  have one: "phase (killCycle state cid env) = gameOver \<and>
             winner (killCycle state cid env) = Some (cycle_id (hd alive)) \<and>
             (\<exists>n. scores state (cycle_id (hd alive)) = Some n \<and>
                  scores (killCycle state cid env) (cycle_id (hd alive)) = Some (n + 1)) \<and>
             (\<forall>k. k \<noteq> cycle_id (hd alive) \<longrightarrow>
                  scores (killCycle state cid env) k = scores state k)"
    if len: "length alive = 1"
  proof -
    from len have "hd alive \<in> set alive" by (cases alive) simp_all
    then have "hd alive \<in> set updated" by (simp add: alive_def)
    then obtain c0 where c0: "c0 \<in> set (cycles state)" "cycle_id c0 = cycle_id (hd alive)"
      unfolding updated_def by (blast dest: killed_cycles_ids)
    with known have inIds: "cycle_id (hd alive) \<in> set agentIds"
      by (auto simp add: knownAgents_def list_all_iff)
    then have ne: "cycle_id (hd alive) \<noteq> []" by (rule agentIds_nonempty)
    from inIds known obtain n where n: "scores state (cycle_id (hd alive)) = Some n"
      by (auto simp add: knownAgents_def list_all_iff)
    have sc: "scores (killCycle state cid env)
               = incrementScore (scores state) (Some (cycle_id (hd alive)))"
      using len by (simp add: killCycle_unfold Let_def alive_def updated_def)
    have ph: "phase (killCycle state cid env) = gameOver"
      using len by (simp add: killCycle_unfold Let_def alive_def updated_def)
    have wi: "winner (killCycle state cid env) = Some (cycle_id (hd alive))"
      using len by (simp add: killCycle_unfold Let_def alive_def updated_def)
    from incrementScore_winner [of "cycle_id (hd alive)" "scores state" n, OF ne n] sc ph wi n
    show ?thesis by simp
  qed
  have zero: "phase (killCycle state cid env) = gameOver \<and>
              winner (killCycle state cid env) = None \<and>
              scores (killCycle state cid env) = scores state"
    if len: "length alive = 0"
    using len by (simp add: killCycle_unfold Let_def alive_def updated_def incrementScore_None)
  have many: "phase (killCycle state cid env) = playing \<and>
              winner (killCycle state cid env) = winner state \<and>
              scores (killCycle state cid env) = scores state"
    if len: "length alive \<ge> 2"
    using len playing by (simp add: killCycle_unfold Let_def alive_def updated_def)
  show ?thesis
    unfolding Let_def cyc alive_def [symmetric]
    using one zero many by blast
qed

lemma startedRound_reachable: "reachable startedRound"
  unfolding startedRound_def by (rule reachable_dispatchAll) (rule reachable.initial)

lemma twoLeft_reachable: "reachable twoLeft"
  unfolding twoLeft_def by (rule reachable_dispatchAll) (rule startedRound_reachable)

lemma oneLeft_reachable: "reachable oneLeft"
  unfolding oneLeft_def by (rule reachable_dispatchAll) (rule twoLeft_reachable)

lemma startedRound_eval:
  "phase startedRound = playing \<and>
   map (\<lambda>c. (cycle_id c, isAlive c)) (cycles startedRound) =
     [(''player'', True), (''ai-1'', True), (''ai-2'', True), (''ai-3'', True)] \<and>
   scores startedRound = [''player'' \<mapsto> 0, ''ai-1'' \<mapsto> 0, ''ai-2'' \<mapsto> 0, ''ai-3'' \<mapsto> 0] \<and>
   winner startedRound = None"
  by (simp add: startedRound_def dispatchAll_def createInitialState_def createInitialCycles_def
      initialIdentities_def SPAWN_POSITIONS_def Let_def)

lemma twoLeft_eval:
  "phase twoLeft = playing \<and>
   map (\<lambda>c. (cycle_id c, isAlive c)) (cycles twoLeft) =
     [(''player'', True), (''ai-1'', True), (''ai-2'', False), (''ai-3'', False)] \<and>
   scores twoLeft = [''player'' \<mapsto> 0, ''ai-1'' \<mapsto> 0, ''ai-2'' \<mapsto> 0, ''ai-3'' \<mapsto> 0]"
  by (simp add: twoLeft_def startedRound_def dispatchAll_def createInitialState_def
      createInitialCycles_def initialIdentities_def SPAWN_POSITIONS_def Let_def)

lemma oneLeft_eval:
  "phase oneLeft = playing \<and>
   map (\<lambda>c. (cycle_id c, isAlive c)) (cycles oneLeft) =
     [(''player'', True), (''ai-1'', False), (''ai-2'', False), (''ai-3'', False)] \<and>
   scores oneLeft ''player'' = Some 1 \<and> winner oneLeft = Some ''player''"
  by (simp add: oneLeft_def twoLeft_def startedRound_def dispatchAll_def createInitialState_def
      createInitialCycles_def initialIdentities_def SPAWN_POSITIONS_def Let_def
      incrementScore_def)

lemmas round_defs =
  oneLeft_def twoLeft_def startedRound_def dispatchAll_def createInitialState_def
  createInitialCycles_def initialIdentities_def SPAWN_POSITIONS_def Let_def incrementScore_def
  killCycle_def

lemma twoLeft_survivor:
  "map cycle_id (filter isAlive (cycles (killCycle twoLeft ''ai-1'' fixedEnv))) = [''player'']"
  by (simp add: round_defs)

lemma startedRound_survivors:
  "map cycle_id (filter isAlive (cycles (killCycle startedRound ''ai-3'' fixedEnv)))
     = [''player'', ''ai-1'', ''ai-2'']"
  by (simp add: round_defs)

lemma oneLeft_survivors:
  "map cycle_id (filter isAlive (cycles (killCycle oneLeft ''player'' fixedEnv))) = []"
  by (simp add: round_defs)

theorem killCycle_end_of_round_witness:
  "(reachable twoLeft \<and> phase twoLeft = playing \<and>
    length (filter isAlive (cycles (killCycle twoLeft ''ai-1'' fixedEnv))) = 1 \<and>
    phase (killCycle twoLeft ''ai-1'' fixedEnv) = gameOver \<and>
    winner (killCycle twoLeft ''ai-1'' fixedEnv) = Some ''player'' \<and>
    scores twoLeft ''player'' = Some 0 \<and>
    scores (killCycle twoLeft ''ai-1'' fixedEnv) ''player'' = Some 1) \<and>
   (reachable oneLeft \<and> phase oneLeft = playing \<and>
    length (filter isAlive (cycles (killCycle oneLeft ''player'' fixedEnv))) = 0 \<and>
    winner (killCycle oneLeft ''player'' fixedEnv) = None \<and>
    scores (killCycle oneLeft ''player'' fixedEnv) = scores oneLeft) \<and>
   (reachable startedRound \<and> phase startedRound = playing \<and>
    length (filter isAlive (cycles (killCycle startedRound ''ai-3'' fixedEnv))) = 3 \<and>
    phase (killCycle startedRound ''ai-3'' fixedEnv) = playing)"
proof -
  have p2: "phase twoLeft = playing" and s2: "scores twoLeft ''player'' = Some 0"
    using twoLeft_eval by simp_all
  have l2: "length (filter isAlive (cycles (killCycle twoLeft ''ai-1'' fixedEnv))) = 1"
    using arg_cong [OF twoLeft_survivor, of length] by simp
  have h2: "cycle_id (hd (filter isAlive (cycles (killCycle twoLeft ''ai-1'' fixedEnv))))
              = ''player''"
    using twoLeft_survivor by (cases "filter isAlive (cycles (killCycle twoLeft ''ai-1'' fixedEnv))") simp_all
  have two: "phase (killCycle twoLeft ''ai-1'' fixedEnv) = gameOver \<and>
             winner (killCycle twoLeft ''ai-1'' fixedEnv) = Some ''player'' \<and>
             scores (killCycle twoLeft ''ai-1'' fixedEnv) ''player'' = Some 1"
    using killCycle_end_of_round [OF twoLeft_reachable p2, of "''ai-1''" fixedEnv] l2 h2 s2
    by (simp add: Let_def)
  have p1: "phase oneLeft = playing"
    using oneLeft_eval by simp
  have l1: "length (filter isAlive (cycles (killCycle oneLeft ''player'' fixedEnv))) = 0"
    using arg_cong [OF oneLeft_survivors, of length] by simp
  have one: "winner (killCycle oneLeft ''player'' fixedEnv) = None \<and>
             scores (killCycle oneLeft ''player'' fixedEnv) = scores oneLeft"
    using killCycle_end_of_round [OF oneLeft_reachable p1, of "''player''" fixedEnv] l1
    by (simp add: Let_def)
  have p4: "phase startedRound = playing"
    using startedRound_eval by simp
  have l4: "length (filter isAlive (cycles (killCycle startedRound ''ai-3'' fixedEnv))) = 3"
    using arg_cong [OF startedRound_survivors, of length] by simp
  have four: "phase (killCycle startedRound ''ai-3'' fixedEnv) = playing"
    using killCycle_end_of_round [OF startedRound_reachable p4, of "''ai-3''" fixedEnv] l4
    by (simp add: Let_def)
  from twoLeft_reachable p2 l2 two s2 oneLeft_reachable p1 l1 one
       startedRound_reachable p4 l4 four
  show ?thesis by blast
qed

section \<open>Raycast: clear lanes and skipped segments\<close>

lemma raycastWall_cardinal:
  "raycastWall position (DIRECTION_VECTORS dir) = Fin (insetWallDistance position dir)"
  by (cases dir) (simp_all add: raycastWall_def insetWallDistance_def Let_def)

lemma raycastSegments_clear:
  "\<not> list_ex (pointIntersectsSegment testPos) segs \<Longrightarrow>
   raycastSegments testPos d segs acc = acc"
  by (induction segs arbitrary: acc) simp_all

lemma near_eq_checkCycleCollision:
  "((px a - px b) * (px a - px b) + (pz a - pz b) * (pz a - pz b)
      < CYCLE_RADIUS * CYCLE_RADIUS * 4) = checkCycleCollision a b"
  by (simp add: checkCycleCollision_def Let_def algebra_simps)

lemma raycastCycle_clear:
  "\<not> (isAlive c \<and>
       (list_ex (pointIntersectsSegment testPos) (raycastTrail selfId c) \<or>
        (cycle_id c \<noteq> selfId \<and> checkCycleCollision testPos (gridPosition c)))) \<Longrightarrow>
   raycastCycle testPos d selfId c acc = acc"
  by (auto simp add: raycastCycle_def Let_def near_eq_checkCycleCollision raycastSegments_clear)

lemma raycastCycles_clear:
  "\<not> blockedAt testPos allCycles selfId \<Longrightarrow>
   raycastCycles testPos d selfId allCycles acc = acc"
  unfolding blockedAt_def
  by (induction allCycles arbitrary: acc) (simp_all add: raycastCycle_clear)

lemma raycastLoop_clear:
  assumes "\<forall>k\<ge>1. \<not> blockedAt (samplePoint position dvec (real k * rayStep)) allCycles selfId"
    and "d = real k * rayStep" and "1 \<le> k"
  shows "raycastLoop position dvec maxDistance allCycles selfId d acc = acc"
  using assms
proof (induction position dvec maxDistance allCycles selfId d acc arbitrary: k
       rule: raycastLoop.induct)
  case (1 position dvec maxDistance allCycles selfId d acc)
  show ?case
  proof (cases "d \<le> maxDistance \<and> lessInf d (fst acc)")
    case False
    then show ?thesis by (subst raycastLoop.simps) auto
  next
    case True
    have clear: "\<not> blockedAt (samplePoint position dvec d) allCycles selfId"
      using "1.prems" by blast
    have same: "raycastCycles \<lparr>px = px position + px dvec * d, pz = pz position + pz dvec * d\<rparr>
                  d selfId allCycles acc = acc"
      using clear by (simp add: raycastCycles_clear samplePoint_def)
    have next_d: "d + rayStep = real (Suc k) * rayStep"
      using "1.prems"(2) by (simp add: algebra_simps)
    have "raycastLoop position dvec maxDistance allCycles selfId (d + rayStep) acc = acc"
      using "1.IH" [OF True refl "1.prems"(1) _ , of "Suc k"] same next_d by simp
    then show ?thesis
      using True same by (subst raycastLoop.simps) (simp add: Let_def)
  qed
qed

lemma raycast_clear:
  assumes "\<forall>k\<ge>1. \<not> blockedAt (samplePoint position (DIRECTION_VECTORS dir) (real k * rayStep))
                       allCycles selfId"
  shows "raycast position (DIRECTION_VECTORS dir) maxDistance allCycles selfId
           = \<lparr>ray_distance = min (insetWallDistance position dir) maxDistance,
              ray_type = Some Wall\<rparr>"
proof -
  have loop: "raycastLoop position (DIRECTION_VECTORS dir) maxDistance allCycles selfId rayStep acc
                = acc" for acc
    using raycastLoop_clear [OF assms, of rayStep 1] by simp
  show ?thesis
    by (simp add: raycast_def raycastWall_cardinal loop Let_def)
qed

text \<open>
  C5. In a clear lane (no sample point of the ray is blocked), a raycast in a cardinal
  direction reports \<open>min maxDistance (insetWallDistance position dir)\<close>; the wall distance
  is never \<open>Infinity\<close>, and when the wall is at least \<open>maxDistance\<close> away the result is
  exactly \<open>maxDistance\<close>.
\<close>

theorem raycast_clear_lane:
  assumes "\<forall>k\<ge>1. \<not> blockedAt (samplePoint position (DIRECTION_VECTORS dir) (real k * rayStep))
                       allCycles selfId"
  shows "ray_distance (raycast position (DIRECTION_VECTORS dir) maxDistance allCycles selfId)
           = min maxDistance (insetWallDistance position dir) \<and>
         raycastWall position (DIRECTION_VECTORS dir) \<noteq> PosInf \<and>
         (maxDistance \<le> insetWallDistance position dir \<longrightarrow>
            ray_distance (raycast position (DIRECTION_VECTORS dir) maxDistance allCycles selfId)
              = maxDistance)"
  by (simp add: raycast_clear [OF assms] raycastWall_cardinal min.commute)

theorem raycast_clear_lane_witness:
  "(\<forall>k. \<not> blockedAt (samplePoint \<lparr>px = 0, pz = 0\<rparr> (DIRECTION_VECTORS east) (real k * rayStep))
              [createCycle ''player'' \<lparr>px = 0, pz = 0\<rparr> []] ''player'') \<and>
   insetWallDistance \<lparr>px = 0, pz = 0\<rparr> east = 63.6 \<and>
   ray_distance (raycast \<lparr>px = 0, pz = 0\<rparr> (DIRECTION_VECTORS east) 10
                   [createCycle ''player'' \<lparr>px = 0, pz = 0\<rparr> []] ''player'') = 10"
proof -
  have all_clear: "\<forall>k. \<not> blockedAt (samplePoint \<lparr>px = 0, pz = 0\<rparr> (DIRECTION_VECTORS east)
                                      (real k * rayStep))
              [createCycle ''player'' \<lparr>px = 0, pz = 0\<rparr> []] ''player''"
    by (simp add: blockedAt_def raycastTrail_def createCycle_def)
  then have clear: "\<forall>k\<ge>1. \<not> blockedAt (samplePoint \<lparr>px = 0, pz = 0\<rparr> (DIRECTION_VECTORS east)
                                      (real k * rayStep))
              [createCycle ''player'' \<lparr>px = 0, pz = 0\<rparr> []] ''player''"
    by blast
  have wall: "insetWallDistance \<lparr>px = 0, pz = 0\<rparr> east = 63.6"
    by (simp add: insetWallDistance_def ARENA_HALF_def ARENA_SIZE_def CYCLE_RADIUS_def)
  have "ray_distance (raycast \<lparr>px = 0, pz = 0\<rparr> (DIRECTION_VECTORS east) 10
                   [createCycle ''player'' \<lparr>px = 0, pz = 0\<rparr> []] ''player'') = 10"
    using raycast_clear_lane [OF clear, of 10] wall by simp
  with all_clear wall show ?thesis by blast
qed




















section \<open>Decision policy: the score of a maneuver\<close>

lemma raycast_capped:
  "ray_distance (raycast position dvec maxDistance allCycles selfId) \<le> maxDistance"
proof -
  have "minInf a maxDistance \<le> maxDistance" for a
    by (cases a) simp_all
  then show ?thesis by (simp add: raycast_def Let_def)
qed

lemma countOpenPaths_filter:
  "countOpenPaths futurePos allCycles selfId dirs n =
     n + length (filter (\<lambda>d. ray_distance (raycast futurePos (DIRECTION_VECTORS d) 15
                                               allCycles selfId) \<ge> 8) dirs)"
  by (induction dirs arbitrary: n) (simp_all add: Let_def)

lemma countEscapePaths_filter:
  "countEscapePaths cycle primaryDir allCycles =
     length (filter (\<lambda>d. ray_distance
                (raycast (moveForward (gridPosition cycle) primaryDir 8) (DIRECTION_VECTORS d) 15
                   allCycles (cycle_id cycle)) \<ge> 8)
             [north, east, south, west])"
  unfolding countEscapePaths_def Let_def countOpenPaths_filter moveForward_def by simp

lemma lonely_clear:
  "length (trail c) \<le> 3 \<Longrightarrow> \<not> blockedAt testPos [c] (cycle_id c)"
  by (simp add: blockedAt_def raycastTrail_def)

lemma raycast_lonely:
  "length (trail c) \<le> 3 \<Longrightarrow>
   raycast position (DIRECTION_VECTORS dir) maxDistance [c] (cycle_id c)
     = \<lparr>ray_distance = min (insetWallDistance position dir) maxDistance, ray_type = Some Wall\<rparr>"
  by (rule raycast_clear) (simp add: lonely_clear)

lemma direction_score_entry:
  assumes "s \<in> set (evaluateAllDirections cycle allCycles)"
  shows "totalScore s = 2.0 * forwardDistance s + 8.0 * real (escapePaths s)
                          + 1.0 * selfTrailDanger s \<and>
         (score_direction s, score_turn s) \<in>
            {(direction cycle, turn_none), (TURN_LEFT (direction cycle), turn_left),
             (TURN_RIGHT (direction cycle), turn_right)} \<and>
         forwardDistance s =
            ray_distance (raycast (gridPosition cycle) (DIRECTION_VECTORS (score_direction s))
                            (2 * lookAheadDistance AI_CONFIG) allCycles (cycle_id cycle)) \<and>
         forwardDistance s \<le> 2 * lookAheadDistance AI_CONFIG \<and>
         escapePaths s =
            length (filter (\<lambda>d. ray_distance
                      (raycast (moveForward (gridPosition cycle) (score_direction s) 8)
                         (DIRECTION_VECTORS d) 15 allCycles (cycle_id cycle)) \<ge> 8)
                    [north, east, south, west]) \<and>
         selfTrailDanger s = evaluateSelfTrailDanger cycle (score_direction s) allCycles"
proof -
  from assms obtain dt where
    dt: "dt \<in> {(direction cycle, turn_none), (TURN_LEFT (direction cycle), turn_left),
                (TURN_RIGHT (direction cycle), turn_right)}"
    and s: "s = evaluateDirection cycle allCycles dt"
    by (auto simp add: evaluateAllDirections_def Let_def)
  have dir: "score_direction s = fst dt" and trn: "score_turn s = snd dt"
    by (simp_all add: s evaluateDirection_def Let_def)
  have fwd: "forwardDistance s =
            ray_distance (raycast (gridPosition cycle) (DIRECTION_VECTORS (fst dt))
                            (2 * lookAheadDistance AI_CONFIG) allCycles (cycle_id cycle))"
    by (simp add: s evaluateDirection_def Let_def mult.commute)
  have cap: "forwardDistance s \<le> 2 * lookAheadDistance AI_CONFIG"
    unfolding fwd by (rule raycast_capped)
  have esc: "escapePaths s = countEscapePaths cycle (fst dt) allCycles"
    by (simp add: s evaluateDirection_def Let_def)
  have dng: "selfTrailDanger s = evaluateSelfTrailDanger cycle (fst dt) allCycles"
    by (simp add: s evaluateDirection_def Let_def)
  have tot: "totalScore s = 2.0 * forwardDistance s + 8.0 * real (escapePaths s)
                          + 1.0 * selfTrailDanger s"
    by (simp add: s evaluateDirection_def Let_def)
  have pair: "(score_direction s, score_turn s) = dt"
    by (simp add: dir trn)
  have c2: "(score_direction s, score_turn s) \<in>
            {(direction cycle, turn_none), (TURN_LEFT (direction cycle), turn_left),
             (TURN_RIGHT (direction cycle), turn_right)}"
    using dt by (simp only: pair)
  have c3: "forwardDistance s =
            ray_distance (raycast (gridPosition cycle) (DIRECTION_VECTORS (score_direction s))
                            (2 * lookAheadDistance AI_CONFIG) allCycles (cycle_id cycle))"
    using fwd by (simp only: dir)
  have c5: "escapePaths s =
            length (filter (\<lambda>d. ray_distance
                      (raycast (moveForward (gridPosition cycle) (score_direction s) 8)
                         (DIRECTION_VECTORS d) 15 allCycles (cycle_id cycle)) \<ge> 8)
                    [north, east, south, west])"
    using esc by (simp only: dir countEscapePaths_filter)
  have c6: "selfTrailDanger s = evaluateSelfTrailDanger cycle (score_direction s) allCycles"
    using dng by (simp only: dir)
  from tot c2 c3 cap c5 c6 show ?thesis by (intro conjI)
qed

lemma insetWallDistance_values:
  "insetWallDistance p north = pz p + 63.6"
  "insetWallDistance p south = 63.6 - pz p"
  "insetWallDistance p east = 63.6 - px p"
  "insetWallDistance p west = px p + 63.6"
  by (simp_all add: insetWallDistance_def ARENA_HALF_def ARENA_SIZE_def CYCLE_RADIUS_def)

lemma evaluateAllDirections_maneuvers:
  "map (\<lambda>s. (score_direction s, score_turn s)) (evaluateAllDirections cycle allCycles) =
     [(direction cycle, turn_none), (TURN_LEFT (direction cycle), turn_left),
      (TURN_RIGHT (direction cycle), turn_right)]"
  by (simp add: evaluateAllDirections_def evaluateDirection_def Let_def)

text \<open>
  C7. \<open>evaluateAllDirections\<close> scores exactly the three maneuvers, in the order continue,
  turn left, turn right, and for each of them the total score is
  \<open>2.0 * forwardDistance + 8.0 * escapePaths + 1.0 * selfTrailDanger\<close>, where
  \<open>forwardDistance\<close> is the raycast distance along the candidate direction with maximum
  \<open>2 * lookAheadDistance\<close> (so never more than that), and \<open>escapePaths\<close> counts the four
  cardinal raycasts from the point 8 units along the candidate direction that report at
  least 8 units.
\<close>

theorem direction_scores:
  "map (\<lambda>s. (score_direction s, score_turn s)) (evaluateAllDirections cycle allCycles) =
     [(direction cycle, turn_none), (TURN_LEFT (direction cycle), turn_left),
      (TURN_RIGHT (direction cycle), turn_right)] \<and>
   (\<forall>s. s \<in> set (evaluateAllDirections cycle allCycles) \<longrightarrow>
      totalScore s = 2.0 * forwardDistance s + 8.0 * real (escapePaths s)
                       + 1.0 * selfTrailDanger s \<and>
      (score_direction s, score_turn s) \<in>
         {(direction cycle, turn_none), (TURN_LEFT (direction cycle), turn_left),
          (TURN_RIGHT (direction cycle), turn_right)} \<and>
      forwardDistance s =
         ray_distance (raycast (gridPosition cycle) (DIRECTION_VECTORS (score_direction s))
                         (2 * lookAheadDistance AI_CONFIG) allCycles (cycle_id cycle)) \<and>
      forwardDistance s \<le> 2 * lookAheadDistance AI_CONFIG \<and>
      escapePaths s =
         length (filter (\<lambda>d. ray_distance
                   (raycast (moveForward (gridPosition cycle) (score_direction s) 8)
                      (DIRECTION_VECTORS d) 15 allCycles (cycle_id cycle)) \<ge> 8)
                 [north, east, south, west]) \<and>
      selfTrailDanger s = evaluateSelfTrailDanger cycle (score_direction s) allCycles)"
  using evaluateAllDirections_maneuvers [of cycle allCycles]
        direction_score_entry [of _ cycle allCycles]
  by blast

theorem direction_scores_witness:
  "map (\<lambda>s. (score_direction s, score_turn s, forwardDistance s, escapePaths s,
              selfTrailDanger s, totalScore s))
       (evaluateAllDirections loneCycle [loneCycle]) =
     [(north, turn_none, 50, 4, 0, 132),
      (west, turn_left, 50, 4, 0, 132),
      (east, turn_right, 50, 4, 0, 132)]"
proof -
  let ?L = "evaluateAllDirections loneCycle [loneCycle]"
  note T = direction_scores [of loneCycle "[loneCycle]"]
  have short: "length (trail loneCycle) \<le> 3"
    and pos: "gridPosition loneCycle = \<lparr>px = 0, pz = 0\<rparr>"
    and heading: "direction loneCycle = north"
    by (simp_all add: loneCycle_def createCycle_def)
  from T have pairs: "map (\<lambda>s. (score_direction s, score_turn s)) ?L =
     [(north, turn_none), (west, turn_left), (east, turn_right)]"
    by (simp add: heading)
  then obtain e0 e1 e2 where L: "?L = [e0, e1, e2]"
    by (auto simp add: map_eq_Cons_conv)
  have ids: "score_direction e0 = north" "score_turn e0 = turn_none"
    "score_direction e1 = west" "score_turn e1 = turn_left"
    "score_direction e2 = east" "score_turn e2 = turn_right"
    using pairs unfolding L by simp_all
  have danger: "evaluateSelfTrailDanger loneCycle d [loneCycle] = 0" for d
    by (simp add: evaluateSelfTrailDanger_def loneCycle_def createCycle_def)
  have vals: "forwardDistance e = 50 \<and> escapePaths e = 4 \<and> selfTrailDanger e = 0 \<and>
              totalScore e = 132"
    if mem: "e \<in> set ?L" for e
  proof -
    from T mem have E:
      "totalScore e = 2.0 * forwardDistance e + 8.0 * real (escapePaths e)
                       + 1.0 * selfTrailDanger e \<and>
       forwardDistance e =
         ray_distance (raycast (gridPosition loneCycle) (DIRECTION_VECTORS (score_direction e))
                         (2 * lookAheadDistance AI_CONFIG) [loneCycle] (cycle_id loneCycle)) \<and>
       escapePaths e =
         length (filter (\<lambda>d. ray_distance
                   (raycast (moveForward (gridPosition loneCycle) (score_direction e) 8)
                      (DIRECTION_VECTORS d) 15 [loneCycle] (cycle_id loneCycle)) \<ge> 8)
                 [north, east, south, west]) \<and>
       selfTrailDanger e = evaluateSelfTrailDanger loneCycle (score_direction e) [loneCycle]"
      by blast
    note E' = E [unfolded raycast_lonely [OF short] pos danger]
    have fwd: "forwardDistance e = 50"
      using E' by (cases "score_direction e")
        (simp_all add: insetWallDistance_values AI_CONFIG_def)
    have esc: "escapePaths e = 4"
      using E' by (cases "score_direction e")
        (simp_all add: insetWallDistance_values moveForward_def)
    have dng: "selfTrailDanger e = 0"
      using E' by simp
    have tot: "totalScore e = 132"
      using E' fwd esc dng by simp
    from fwd esc dng tot show ?thesis by (intro conjI)
  qed
  have v0: "forwardDistance e0 = 50 \<and> escapePaths e0 = 4 \<and> selfTrailDanger e0 = 0 \<and>
            totalScore e0 = 132"
    by (rule vals) (simp add: L)
  have v1: "forwardDistance e1 = 50 \<and> escapePaths e1 = 4 \<and> selfTrailDanger e1 = 0 \<and>
            totalScore e1 = 132"
    by (rule vals) (simp add: L)
  have v2: "forwardDistance e2 = 50 \<and> escapePaths e2 = 4 \<and> selfTrailDanger e2 = 0 \<and>
            totalScore e2 = 132"
    by (rule vals) (simp add: L)
  show ?thesis
    unfolding L using ids v0 v1 v2 by simp
qed

section \<open>Decision policy: the throttle\<close>

lemma getDecision_throttled:
  "currentTime - lastOf st (cycle_id c) < decisionInterval AI_CONFIG \<Longrightarrow>
   getDecision st c cs currentTime env = Some (noDecision, st)"
  by (simp add: getDecision_def lastOf_def noDecision_def)

lemma getDecision_state:
  assumes "getDecision st c cs t env = Some (d, st')"
  shows "st' = st \<or>
         (st' = st(cycle_id c \<mapsto> t) \<and> \<not> t - lastOf st (cycle_id c) < decisionInterval AI_CONFIG)"
proof (cases "t - lastOf st (cycle_id c) < decisionInterval AI_CONFIG")
  case True
  with assms show ?thesis by (simp add: getDecision_throttled)
next
  case False
  then have nt: "\<not> t - (case st (cycle_id c) of None \<Rightarrow> 0 | Some v \<Rightarrow> v)
                    < decisionInterval AI_CONFIG"
    by (simp add: lastOf_def)
  from assms have "st' = st \<or> st' = st(cycle_id c \<mapsto> t)"
    unfolding getDecision_def Let_def
    by (simp only: nt if_False split: prod.splits list.splits option.splits if_splits) auto
  with False show ?thesis by blast
qed

lemma getDecision_lastOf_mono:
  assumes "getDecision st c cs t env = Some (d, st')"
  shows "lastOf st i \<le> lastOf st' i"
proof -
  have iv: "0 \<le> decisionInterval AI_CONFIG" by (simp add: AI_CONFIG_def)
  from getDecision_state [OF assms] show ?thesis
  proof
    assume "st' = st"
    then show ?thesis by simp
  next
    assume commit: "st' = st(cycle_id c \<mapsto> t) \<and>
                    \<not> t - lastOf st (cycle_id c) < decisionInterval AI_CONFIG"
    show ?thesis
    proof (cases "i = cycle_id c")
      case True
      with commit iv show ?thesis by (simp add: lastOf_def)
    next
      case False
      with commit show ?thesis by (simp add: lastOf_def)
    qed
  qed
qed

lemma runDecisions_lastOf_mono:
  "runDecisions st calls = Some st' \<Longrightarrow> lastOf st i \<le> lastOf st' i"
proof (induction calls arbitrary: st)
  case Nil
  then show ?case by simp
next
  case (Cons call rest)
  from Cons.prems obtain d st1 where
    first: "getDecision st (call_cycle call) (call_allCycles call) (call_time call) (call_env call)
              = Some (d, st1)"
    and rest: "runDecisions st1 rest = Some st'"
    by (auto split: option.splits)
  have "lastOf st i \<le> lastOf st1 i"
    using first by (rule getDecision_lastOf_mono)
  also have "\<dots> \<le> lastOf st' i"
    using rest by (rule Cons.IH)
  finally show ?case .
qed

text \<open>
  C9. If a call of \<open>getDecision\<close> for an agent at time \<open>t\<close> leaves \<open>t\<close> in the agent's entry
  of \<open>lastDecisionTime\<close>, then after any further calls of \<open>getDecision\<close> (for any agents, at
  any times), a call for the same agent at a time \<open>t'\<close> with \<open>t' - t < decisionInterval\<close>
  returns turn \<open>none\<close>, urgency 0, jump false, and records nothing.
\<close>

theorem getDecision_throttle:
  assumes commit: "getDecision st c cs t env = Some (dec, st1)" "st1 (cycle_id c) = Some t"
    and later: "runDecisions st1 calls = Some st2"
    and same: "cycle_id c' = cycle_id c"
    and soon: "t' - t < decisionInterval AI_CONFIG"
  shows "getDecision st2 c' cs' t' env' =
           Some (\<lparr>turn = turn_none, urgency = 0, jump = False\<rparr>, st2)"
proof -
  have "lastOf st1 (cycle_id c) = t"
    using commit(2) by (simp add: lastOf_def)
  then have "t \<le> lastOf st2 (cycle_id c)"
    using runDecisions_lastOf_mono [OF later, of "cycle_id c"] by simp
  with soon have "t' - lastOf st2 (cycle_id c') < decisionInterval AI_CONFIG"
    by (simp add: same)
  then show ?thesis
    by (simp add: getDecision_throttled noDecision_def)
qed

lemma forward_entry:
  assumes "find (\<lambda>s. score_turn s = turn_none)
             (sort_key (\<lambda>s. - totalScore s) (evaluateAllDirections c cs)) = Some f"
  shows "f = evaluateDirection c cs (direction c, turn_none)"
proof -
  let ?scores = "sort_key (\<lambda>s. - totalScore s) (evaluateAllDirections c cs)"
  from assms obtain i where i: "i < length ?scores" "f = ?scores ! i"
    and none: "score_turn f = turn_none"
    unfolding find_Some_iff by blast
  have "f \<in> set ?scores"
    unfolding i(2) using i(1) by (rule nth_mem)
  then have "f \<in> set (evaluateAllDirections c cs)"
    by (simp only: set_sort)
  with none show ?thesis
    by (auto simp add: evaluateAllDirections_def evaluateDirection_def Let_def)
qed

lemma getDecision_not_None: "getDecision st c cs t env \<noteq> None"
proof (cases "t - lastOf st (cycle_id c) < decisionInterval AI_CONFIG")
  case True
  then show ?thesis by (simp add: getDecision_throttled)
next
  case False
  then have nt: "\<not> t - (case st (cycle_id c) of None \<Rightarrow> 0 | Some v \<Rightarrow> v)
                    < decisionInterval AI_CONFIG"
    by (simp add: lastOf_def)
  let ?scores = "sort_key (\<lambda>s. - totalScore s) (evaluateAllDirections c cs)"
  have "length ?scores = 3"
    by (simp add: evaluateAllDirections_def)
  then obtain best rest where sc: "?scores = best # rest"
    by (cases ?scores) simp_all
  have "evaluateDirection c cs (direction c, turn_none) \<in> set ?scores"
    by (simp add: evaluateAllDirections_def)
  moreover have "score_turn (evaluateDirection c cs (direction c, turn_none)) = turn_none"
    by (simp add: evaluateDirection_def Let_def)
  ultimately have "find (\<lambda>s. score_turn s = turn_none) ?scores \<noteq> None"
    unfolding find_None_iff by blast
  then obtain f where fw: "find (\<lambda>s. score_turn s = turn_none) ?scores = Some f"
    by blast
  have "find (\<lambda>s. score_turn s = turn_none) (best # rest) = Some f"
    using fw by (simp only: sc)
  then show ?thesis
    unfolding getDecision_def Let_def
    by (simp only: nt if_False sc prod.case list.case option.case)
       (simp split: list.splits option.splits)
qed

lemma nearWall_fields:
  "cycle_id nearWall = ''ai-1''" "gridPosition nearWall = \<lparr>px = 0, pz = -62\<rparr>"
  "direction nearWall = north" "trail nearWall = []" "isJumping nearWall = False"
  "lastJumpTime nearWall = 0"
  by (simp_all add: nearWall_def createCycle_def)

lemma nearWall_scores:
  "evaluateAllDirections nearWall [nearWall] =
     [\<lparr>score_direction = north, score_turn = turn_none, forwardDistance = 1.6,
        escapePaths = 3, selfTrailDanger = 0, totalScore = 27.2\<rparr>,
      \<lparr>score_direction = west, score_turn = turn_left, forwardDistance = 50,
        escapePaths = 3, selfTrailDanger = 0, totalScore = 124\<rparr>,
      \<lparr>score_direction = east, score_turn = turn_right, forwardDistance = 50,
        escapePaths = 3, selfTrailDanger = 0, totalScore = 124\<rparr>]"
proof -
  have short: "length (trail nearWall) \<le> 3" by (simp add: nearWall_fields)
  have ray: "raycast position (DIRECTION_VECTORS dir) maxDistance [nearWall] (cycle_id nearWall)
     = \<lparr>ray_distance = min (insetWallDistance position dir) maxDistance, ray_type = Some Wall\<rparr>"
    for position dir maxDistance
    using short by (rule raycast_lonely)
  have danger: "evaluateSelfTrailDanger nearWall dir [nearWall] = 0" for dir
    by (simp add: evaluateSelfTrailDanger_def nearWall_fields)
  show ?thesis
    unfolding evaluateAllDirections_def evaluateDirection_def Let_def countEscapePaths_filter
      ray danger
    by (simp add: nearWall_fields insetWallDistance_values moveForward_def AI_CONFIG_def)
qed

lemma nearWall_commit:
  "getDecision Map.empty nearWall [nearWall] 100 quietEnv
     = Some (\<lparr>turn = turn_left, urgency = 1, jump = False\<rparr>, [''ai-1'' \<mapsto> 100])"
proof -
  have jump: "\<not> shouldJump nearWall [nearWall] fd quietEnv" if "fd \<le> 3" for fd
    using that by (simp add: shouldJump_def nearWall_fields quietEnv_def)
  show ?thesis
    unfolding getDecision_def Let_def nearWall_scores
    by (simp add: AI_CONFIG_def nearWall_fields jump)
qed

theorem getDecision_throttle_witness:
  "getDecision Map.empty nearWall [nearWall] 100 quietEnv
     = Some (\<lparr>turn = turn_left, urgency = 1, jump = False\<rparr>, [''ai-1'' \<mapsto> 100]) \<and>
   [''ai-1'' \<mapsto> (100::real)] (cycle_id nearWall) = Some 100 \<and>
   runDecisions [''ai-1'' \<mapsto> 100]
     [\<lparr>call_cycle = nearWall, call_allCycles = [nearWall], call_time = 120,
        call_env = quietEnv\<rparr>] = Some [''ai-1'' \<mapsto> 100] \<and>
   (159 - 100 < decisionInterval AI_CONFIG \<and>
    getDecision [''ai-1'' \<mapsto> 100] nearWall [nearWall] 159 quietEnv
      = Some (\<lparr>turn = turn_none, urgency = 0, jump = False\<rparr>, [''ai-1'' \<mapsto> 100]))"
proof -
  have rec: "[''ai-1'' \<mapsto> (100::real)] (cycle_id nearWall) = Some 100"
    by (simp add: nearWall_fields)
  have mid: "runDecisions [''ai-1'' \<mapsto> 100]
     [\<lparr>call_cycle = nearWall, call_allCycles = [nearWall], call_time = 120,
        call_env = quietEnv\<rparr>] = Some [''ai-1'' \<mapsto> 100]"
    by (simp add: getDecision_throttled lastOf_def nearWall_fields AI_CONFIG_def)
  have soon: "159 - 100 < decisionInterval AI_CONFIG"
    by (simp add: AI_CONFIG_def)
  from getDecision_throttle [OF nearWall_commit rec mid refl soon, of "[nearWall]" quietEnv]
       nearWall_commit rec mid soon
  show ?thesis by (intro conjI)
qed

section \<open>Decision policy: the self-trail danger\<close>

text \<open>
  What the code computes: nothing for a trail of fewer than 3 segments; otherwise the
  sampled penalties over the older segments, plus 5 off for each side whose raycast
  reports a trail (of any living agent) within 5 units.
\<close>

lemma dangerSegments_sum:
  "dangerSegments checkPos segs danger =
     danger + (\<Sum>seg\<leftarrow>segs. if distanceToSegment checkPos seg < 3
                            then - (10 - 2 * distanceToSegment checkPos seg) else 0)"
  by (induction segs arbitrary: danger) (simp_all add: Let_def)

lemma dangerDistances_sum:
  "dangerDistances cycle vector dsts danger =
     danger + (\<Sum>dst\<leftarrow>dsts. \<Sum>seg\<leftarrow>take (length (trail cycle) - 4) (trail cycle).
                 if distanceToSegment (samplePoint (gridPosition cycle) vector dst) seg < 3
                 then - (10 - 2 * distanceToSegment
                                    (samplePoint (gridPosition cycle) vector dst) seg)
                 else 0)"
  by (induction dsts arbitrary: danger)
     (simp_all add: Let_def dangerSegments_sum samplePoint_def cong: if_cong)

lemma dangerSides_sum:
  "dangerSides cycle allCycles sides danger =
     danger + (\<Sum>side\<leftarrow>sides.
                 if ray_distance (raycast (gridPosition cycle) (DIRECTION_VECTORS side) 10
                                    allCycles (cycle_id cycle)) < 5 \<and>
                    ray_type (raycast (gridPosition cycle) (DIRECTION_VECTORS side) 10
                                allCycles (cycle_id cycle)) = Some Trail
                 then - 5 else 0)"
  by (induction sides arbitrary: danger) (simp_all add: Let_def)

lemma evaluateSelfTrailDanger_sum:
  "evaluateSelfTrailDanger cycle dir allCycles =
     (if length (trail cycle) < 3 then 0
      else (\<Sum>dst\<leftarrow>[5, 10, 15, 20]. \<Sum>seg\<leftarrow>take (length (trail cycle) - 4) (trail cycle).
              if distanceToSegment
                   (samplePoint (gridPosition cycle) (DIRECTION_VECTORS dir) dst) seg < 3
              then - (10 - 2 * distanceToSegment
                                 (samplePoint (gridPosition cycle) (DIRECTION_VECTORS dir) dst) seg)
              else 0)
         + (\<Sum>side\<leftarrow>[TURN_LEFT dir, TURN_RIGHT dir].
              if ray_distance (raycast (gridPosition cycle) (DIRECTION_VECTORS side) 10
                                 allCycles (cycle_id cycle)) < 5 \<and>
                 ray_type (raycast (gridPosition cycle) (DIRECTION_VECTORS side) 10
                             allCycles (cycle_id cycle)) = Some Trail
              then - 5 else 0))"
  unfolding evaluateSelfTrailDanger_def Let_def dangerSides_sum dangerDistances_sum
  by simp

lemma rider_fields:
  "cycle_id rider = ''ai-1''" "gridPosition rider = \<lparr>px = 0, pz = 0\<rparr>"
  "length (trail rider) = 3" "isAlive rider"
  by (simp_all add: rider_def createCycle_def)

lemma rider_raycastTrail: "raycastTrail ''ai-1'' rider = []"
  by (simp add: raycastTrail_def rider_def createCycle_def)

lemma neighbour_fields:
  "cycle_id neighbour = ''ai-2''" "gridPosition neighbour = \<lparr>px = -10, pz = 5\<rparr>"
  "isAlive neighbour"
  "raycastTrail ''ai-1'' neighbour =
     [\<lparr>seg_start = \<lparr>px = -2, pz = -5\<rparr>, seg_end = \<lparr>px = -2, pz = 5\<rparr>, seg_direction = south\<rparr>]"
  by (simp_all add: neighbour_def createCycle_def raycastTrail_def)

lemma far_from_neighbour:
  "\<not> checkCycleCollision \<lparr>px = v, pz = 0\<rparr> \<lparr>px = -10, pz = 5\<rparr>"
proof -
  have "0 \<le> (v + 10) * (v + 10)" by (rule zero_le_square)
  then have "\<not> (v + 10) * (v + 10) + 5 * 5 < 0.8 * 0.8" by linarith
  then show ?thesis
    by (simp add: checkCycleCollision_def Let_def CYCLE_RADIUS_def)
qed

lemma east_clear:
  "\<not> blockedAt (samplePoint \<lparr>px = 0, pz = 0\<rparr> (DIRECTION_VECTORS east) (real k * rayStep))
       [rider, neighbour] ''ai-1''"
proof -
  have step: "0 \<le> real k * rayStep" by (simp add: rayStep_def)
  have miss: "\<not> pointIntersectsSegment \<lparr>px = real k * rayStep, pz = 0\<rparr>
       \<lparr>seg_start = \<lparr>px = -2, pz = -5\<rparr>, seg_end = \<lparr>px = -2, pz = 5\<rparr>, seg_direction = south\<rparr>"
    using step by (simp add: pointIntersectsSegment_def Let_def TRAIL_WIDTH_def CYCLE_RADIUS_def)
  show ?thesis
    using miss
    by (simp add: blockedAt_def samplePoint_def rider_fields rider_raycastTrail neighbour_fields
        far_from_neighbour)
qed

lemma east_ray:
  "raycast \<lparr>px = 0, pz = 0\<rparr> (DIRECTION_VECTORS east) 10 [rider, neighbour] ''ai-1''
     = \<lparr>ray_distance = 10, ray_type = Some Wall\<rparr>"
proof -
  have "raycast \<lparr>px = 0, pz = 0\<rparr> (DIRECTION_VECTORS east) 10 [rider, neighbour] ''ai-1''
     = \<lparr>ray_distance = min (insetWallDistance \<lparr>px = 0, pz = 0\<rparr> east) 10, ray_type = Some Wall\<rparr>"
    by (rule raycast_clear) (intro allI impI east_clear)
  then show ?thesis by (simp add: insetWallDistance_values)
qed

lemma west_ray:
  "raycast \<lparr>px = 0, pz = 0\<rparr> (DIRECTION_VECTORS west) 10 [rider, neighbour] ''ai-1''
     = \<lparr>ray_distance = 2, ray_type = Some Trail\<rparr>"
  by (simp add: raycast_def raycastWall_def Let_def raycastLoop.simps rayStep_def
      raycastCycle_def rider_fields rider_raycastTrail neighbour_fields
      pointIntersectsSegment_def TRAIL_WIDTH_def CYCLE_RADIUS_def ARENA_HALF_def ARENA_SIZE_def)

text \<open>
  C8. The side penalty of \<open>evaluateSelfTrailDanger\<close> is meant for the agent's own trail,
  but the test \<open>sideHit.type === 'trail'\<close> cannot tell whose trail was hit. Here the rider
  \<open>ai-1\<close> has three segments, all far away and all skipped by the raycast, no older
  segment to sample, and the trail of \<open>ai-2\<close> two units to its left: the code returns
  \<open>-5\<close> although no side raycast hits the rider's own trail.
\<close>

theorem evaluateSelfTrailDanger_foreign_trail:
  "evaluateSelfTrailDanger rider north [rider, neighbour] = - 5 \<and>
   cycle_id neighbour \<noteq> cycle_id rider \<and>
   raycastTrail (cycle_id rider) rider = [] \<and>
   take (length (trail rider) - 4) (trail rider) = [] \<and>
   raycast (gridPosition rider) (DIRECTION_VECTORS (TURN_LEFT north)) 10 [rider, neighbour]
     (cycle_id rider) = \<lparr>ray_distance = 2, ray_type = Some Trail\<rparr> \<and>
   raycast (gridPosition rider) (DIRECTION_VECTORS (TURN_RIGHT north)) 10 [rider, neighbour]
     (cycle_id rider) = \<lparr>ray_distance = 10, ray_type = Some Wall\<rparr>"
proof -
  have old: "take (length (trail rider) - 4) (trail rider) = []"
    by (simp add: rider_fields)
  have left: "raycast (gridPosition rider) (DIRECTION_VECTORS (TURN_LEFT north)) 10
                [rider, neighbour] (cycle_id rider) = \<lparr>ray_distance = 2, ray_type = Some Trail\<rparr>"
    using west_ray by (simp add: rider_fields)
  have right: "raycast (gridPosition rider) (DIRECTION_VECTORS (TURN_RIGHT north)) 10
                [rider, neighbour] (cycle_id rider) = \<lparr>ray_distance = 10, ray_type = Some Wall\<rparr>"
    using east_ray by (simp add: rider_fields)
  have danger: "evaluateSelfTrailDanger rider north [rider, neighbour] = - 5"
    unfolding evaluateSelfTrailDanger_def Let_def dangerSides.simps dangerDistances.simps old
      left right
    by (simp add: rider_fields)
  have ids: "cycle_id neighbour \<noteq> cycle_id rider"
    by (simp add: rider_fields neighbour_fields)
  have own: "raycastTrail (cycle_id rider) rider = []"
    by (simp add: rider_fields rider_raycastTrail)
  from danger ids own old left right show ?thesis by (intro conjI)
qed

end
